theory Spec2Isabelle
  imports Main
begin

section \<open>Python values, attributes and exceptions\<close>

text \<open>
  The plugin reads everything it decides on through attribute lookups on dynamically
  typed objects (the test's context, the settings module, the plugin instance itself).
  A value is one of the Python values such an attribute holds in practice (\<open>PyObject\<close>
  stands for any other object, such as a module, a class or a function); an object is
  the finite map from attribute names to values; a missing attribute is \<open>None\<close> of the
  map: \<open>hasattr\<close> is a \<open>case\<close> on the lookup, and a plain attribute read of a
  missing name is \<open>AttributeError\<close>.
\<close>

datatype pyval =
    PyNone
  | PyBool bool
  | PyInt int
  | PyStr string
  | PyList "pyval list"
  | PyDict "(string \<times> pyval) list"
  | PyObject string

text \<open>Python truth testing: what \<open>if v:\<close> and \<open>not v\<close> look at.\<close>

fun truthy :: "pyval \<Rightarrow> bool" where
  "truthy PyNone = False"
| "truthy (PyBool b) = b"
| "truthy (PyInt n) = (n \<noteq> 0)"
| "truthy (PyStr s) = (s \<noteq> [])"
| "truthy (PyList xs) = (xs \<noteq> [])"
| "truthy (PyDict kvs) = (kvs \<noteq> [])"
| "truthy (PyObject name) = True"

type_synonym attrs = "string \<rightharpoonup> pyval"

definition hasattr :: "attrs \<Rightarrow> string \<Rightarrow> bool" where
  "hasattr obj name = (obj name \<noteq> None)"

text \<open>\<open>getattr(obj, name, default)\<close>, the three-argument form.\<close>

definition getattr_default :: "attrs \<Rightarrow> string \<Rightarrow> pyval \<Rightarrow> pyval" where
  "getattr_default obj name d = (case obj name of None \<Rightarrow> d | Some v \<Rightarrow> v)"

datatype error =
    AttributeError string
  | NameError string
  | RuntimeError string
  | TypeError
  | ValueError
  | OSError
  | ImportError

section \<open>Tests as the runner hands them to a plugin\<close>

text \<open>
  \<open>isinstance(test, nose.case.Test)\<close> and the class of the wrapped \<open>test.test\<close> are
  all the plugin asks about the shape of a test; the rest is attribute lookups on
  \<open>test.context\<close> (the class or module the test lives in), on the wrapper \<open>test\<close>
  and on the wrapped \<open>test.test\<close>.
\<close>

datatype case_class = MethodTestCase | FunctionTestCase | UnittestTestCase

record test =
  is_nose_Test :: bool
  inner_class :: case_class
  test_context :: attrs
  wrapper_attrs :: attrs
  inner_attrs :: attrs
  test_id :: string

section \<open>Transaction eligibility\<close>

text \<open>
  \<open>NoseDjango._supports_transactions\<close>: the local \<open>transaction_support\<close> is
  assigned up to three times, in the order of the source.
\<close>

definition supports_transactions :: "test \<Rightarrow> attrs \<Rightarrow> pyval" where
  "supports_transactions t settings =
     (let transaction_support = PyBool True;
          transaction_support =
            (case test_context t ''use_transaction'' of
               Some use_transaction \<Rightarrow> use_transaction
             | None \<Rightarrow> transaction_support);
          transaction_support =
            (case settings ''DISABLE_TRANSACTION_MANAGEMENT'' of
               Some disable \<Rightarrow> PyBool (\<not> truthy disable)
             | None \<Rightarrow> transaction_support);
          transaction_support =
            (case settings ''DATABASE_SUPPORTS_TRANSACTIONS'' of
               Some supported \<Rightarrow>
                 (if \<not> truthy supported then PyBool False else transaction_support)
             | None \<Rightarrow> transaction_support)
      in transaction_support)"

text \<open>
  The three vetoes the specification speaks of: a signal vetoes when it is present and
  says no.
\<close>

definition test_vetoes :: "test \<Rightarrow> bool" where
  "test_vetoes t =
     (case test_context t ''use_transaction'' of None \<Rightarrow> False | Some v \<Rightarrow> \<not> truthy v)"

definition disabled_vetoes :: "attrs \<Rightarrow> bool" where
  "disabled_vetoes settings =
     (case settings ''DISABLE_TRANSACTION_MANAGEMENT'' of None \<Rightarrow> False | Some v \<Rightarrow> truthy v)"

definition capability_vetoes :: "attrs \<Rightarrow> bool" where
  "capability_vetoes settings =
     (case settings ''DATABASE_SUPPORTS_TRANSACTIONS'' of None \<Rightarrow> False | Some v \<Rightarrow> \<not> truthy v)"

definition plain_test :: test where
  "plain_test = \<lparr> is_nose_Test = True, inner_class = MethodTestCase, test_context = Map.empty,
      wrapper_attrs = Map.empty, inner_attrs = Map.empty, test_id = ''tests.T.test_x'' \<rparr>"

section \<open>The framework as the plugin sees it\<close>

text \<open>
  The plugin implements none of the framework; it sequences calls into it. The world is
  therefore the mutable module state the plugin rebinds (the six entry points of
  \<open>django.db.transaction\<close>, the settings object, \<open>sys.path\<close>, \<open>os.environ\<close>) and
  the trace of the framework calls that really ran. A callable bound to an entry point
  is either the module's \<open>_dummy\<close>, which returns at once, or a function of the
  framework, named; calling the latter is an event of the trace.
\<close>

datatype callable = Dummy | Django string

record transaction_module =
  commit :: callable
  rollback :: callable
  savepoint_commit :: callable
  savepoint_rollback :: callable
  enter_transaction_management :: callable
  leave_transaction_management :: callable

datatype event =
    Transaction_call string
  | Managed bool
  | Is_managed
  | Connection_close
  | Call_command string "pyval list" "(string \<times> pyval) list"
  | Clear_url_caches
  | Clear_test_media
  | Destroy_test_db pyval int
  | Teardown_test_environment
  | Popen "string list"
  | Setup_test_environment
  | Get_commands
  | Register_command string string
  | Create_test_db int
  | Server_start pyval int
  | Server_stop
  | Driver_quit pyval
  | Mkdtemp string
  | Rmtree string bool
  | Print string

record world =
  transaction :: transaction_module
  django_settings :: attrs
  sys_path :: "string list"
  environ :: "string \<rightharpoonup> string"
  trace :: "event list"

definition emit :: "event \<Rightarrow> world \<Rightarrow> world" where
  "emit e w = w\<lparr>trace := trace w @ [e]\<rparr>"

definition call :: "callable \<Rightarrow> world \<Rightarrow> world" where
  "call f w = (case f of Dummy \<Rightarrow> w | Django name \<Rightarrow> emit (Transaction_call name) w)"

text \<open>
  \<open>f(*v)\<close>: the value is iterated; a list gives its elements, a string its
  characters, a dictionary its keys, anything else of \<open>pyval\<close> is not iterable.
\<close>

fun star_args :: "pyval \<Rightarrow> error + pyval list" where
  "star_args (PyList xs) = Inr xs"
| "star_args (PyStr s) = Inr (map (\<lambda>c. PyStr [c]) s)"
| "star_args (PyDict kvs) = Inr (map (\<lambda>kv. PyStr (fst kv)) kvs)"
| "star_args PyNone = Inl TypeError"
| "star_args (PyBool b) = Inl TypeError"
| "star_args (PyInt n) = Inl TypeError"
| "star_args (PyObject name) = Inl TypeError"

section \<open>Names bound at module level\<close>

text \<open>
  A name that a function does not bind itself is looked up in the module's global
  scope. \<open>module_scope\<close> lists every name the module binds at top level (imports,
  constants, functions and classes). Imports made inside a function, such as those at
  the head of \<open>beforeTest\<close>, bind the name in that function only.
\<close>

definition DEFAULT_LIVE_SERVER_ADDRESS :: string where
  "DEFAULT_LIVE_SERVER_ADDRESS = ''0.0.0.0''"

definition DEFAULT_LIVE_SERVER_PORT :: string where
  "DEFAULT_LIVE_SERVER_PORT = ''8000''"

definition module_scope :: attrs where
  "module_scope = map_of
     [(''with_statement'', PyObject ''__future__.with_statement''),
      (''os'', PyObject ''os''), (''sys'', PyObject ''sys''), (''shutil'', PyObject ''shutil''),
      (''re'', PyObject ''re''), (''subprocess'', PyObject ''subprocess''),
      (''signal'', PyObject ''signal''), (''tempfile'', PyObject ''tempfile''),
      (''sleep'', PyObject ''time.sleep''), (''Plugin'', PyObject ''nose.plugins.Plugin''),
      (''SkipTest'', PyObject ''nose.plugins.skip.SkipTest''), (''nose'', PyObject ''nose''),
      (''FileSystemStorage'', PyObject ''django.core.files.storage.FileSystemStorage''),
      (''WSGIHandler'', PyObject ''django.core.handlers.wsgi.WSGIHandler''),
      (''AdminMediaHandler'', PyObject ''django.core.servers.basehttp.AdminMediaHandler''),
      (''add_path'', PyObject ''nose.importer.add_path''),
      (''setup_environ'', PyObject ''django.core.management.setup_environ''),
      (''DEFAULT_LIVE_SERVER_ADDRESS'', PyStr DEFAULT_LIVE_SERVER_ADDRESS),
      (''DEFAULT_LIVE_SERVER_PORT'', PyStr DEFAULT_LIVE_SERVER_PORT),
      (''NT_ROOT'', PyObject ''NT_ROOT''),
      (''get_settings_path'', PyObject ''get_settings_path''),
      (''_dummy'', PyObject ''_dummy''), (''NoseDjango'', PyObject ''NoseDjango''),
      (''custom_before'', PyObject ''custom_before''),
      (''custom_after'', PyObject ''custom_after''),
      (''TestFileSystemStorage'', PyObject ''TestFileSystemStorage''),
      (''SetupTestFilesystem'', PyObject ''SetupTestFilesystem''),
      (''SetupCeleryTesting'', PyObject ''SetupCeleryTesting''),
      (''SetupCacheTesting'', PyObject ''SetupCacheTesting''),
      (''CherryPyLiveServerPlugin'', PyObject ''CherryPyLiveServerPlugin''),
      (''SeleniumPlugin'', PyObject ''SeleniumPlugin''),
      (''DjangoSphinxPlugin'', PyObject ''DjangoSphinxPlugin'')]"

section \<open>The NoseDjango plugin\<close>

text \<open>
  The instance attributes of the plugin. Those that \<open>configure\<close> always sets are plain
  fields; those that only some hook sets are optional, \<open>None\<close> meaning that the
  instance has no such attribute. Neither \<open>NoseDjango\<close> nor the runner's \<open>Plugin\<close>
  base class defines \<open>urls\<close>, so a freshly configured plugin has none.
\<close>

record NoseDjango =
  verbosity :: int
  settings_module :: string
  use_sqlite :: bool
  xvfb_headless :: "string option"
  conf_addPaths :: bool
  conf_where :: "string list"
  settings_path :: "pyval option"
  old_db :: "pyval option"
  managing_transactions :: "pyval option"
  orig_commit :: "callable option"
  orig_rollback :: "callable option"
  orig_savepoint_commit :: "callable option"
  orig_savepoint_rollback :: "callable option"
  orig_enter :: "callable option"
  orig_leave :: "callable option"
  old_urlconf :: "pyval option"
  urls :: "pyval option"

definition disable_transaction_support ::
  "NoseDjango \<Rightarrow> transaction_module \<Rightarrow> NoseDjango \<times> transaction_module" where
  "disable_transaction_support self tr =
     (self\<lparr>orig_commit := Some (commit tr),
           orig_rollback := Some (rollback tr),
           orig_savepoint_commit := Some (savepoint_commit tr),
           orig_savepoint_rollback := Some (savepoint_rollback tr),
           orig_enter := Some (enter_transaction_management tr),
           orig_leave := Some (leave_transaction_management tr)\<rparr>,
      tr\<lparr>commit := Dummy,
         rollback := Dummy,
         savepoint_commit := Dummy,
         savepoint_rollback := Dummy,
         enter_transaction_management := Dummy,
         leave_transaction_management := Dummy\<rparr>)"

text \<open>
  The six assignments run one after the other; reading a saved original that the
  instance does not have raises, and the assignments made so far stay.
\<close>

definition restore_transaction_support ::
  "NoseDjango \<Rightarrow> transaction_module \<Rightarrow> transaction_module \<times> error option" where
  "restore_transaction_support self tr =
     (case orig_commit self of
        None \<Rightarrow> (tr, Some (AttributeError ''orig_commit''))
      | Some f1 \<Rightarrow>
     (case orig_rollback self of
        None \<Rightarrow> (tr\<lparr>commit := f1\<rparr>, Some (AttributeError ''orig_rollback''))
      | Some f2 \<Rightarrow>
     (case orig_savepoint_commit self of
        None \<Rightarrow> (tr\<lparr>commit := f1, rollback := f2\<rparr>,
                 Some (AttributeError ''orig_savepoint_commit''))
      | Some f3 \<Rightarrow>
     (case orig_savepoint_rollback self of
        None \<Rightarrow> (tr\<lparr>commit := f1, rollback := f2, savepoint_commit := f3\<rparr>,
                 Some (AttributeError ''orig_savepoint_rollback''))
      | Some f4 \<Rightarrow>
     (case orig_enter self of
        None \<Rightarrow> (tr\<lparr>commit := f1, rollback := f2, savepoint_commit := f3,
                    savepoint_rollback := f4\<rparr>,
                 Some (AttributeError ''orig_enter''))
      | Some f5 \<Rightarrow>
     (case orig_leave self of
        None \<Rightarrow> (tr\<lparr>commit := f1, rollback := f2, savepoint_commit := f3,
                    savepoint_rollback := f4, enter_transaction_management := f5\<rparr>,
                 Some (AttributeError ''orig_leave''))
      | Some f6 \<Rightarrow>
          (tr\<lparr>commit := f1, rollback := f2, savepoint_commit := f3,
              savepoint_rollback := f4, enter_transaction_management := f5,
              leave_transaction_management := f6\<rparr>, None)))))))"

text \<open>
  \<open>afterTest\<close>. What \<open>transaction.is_managed()\<close> answers is the framework's business;
  it is the argument \<open>managed\<close>. \<open>rollback\<close> and \<open>leave_transaction_management\<close> are
  looked up in the module when called, that is after the restoration.
\<close>

definition afterTest :: "NoseDjango \<Rightarrow> world \<Rightarrow> bool \<Rightarrow> world \<times> error option" where
  "afterTest self w managed =
     (case managing_transactions self of
        None \<Rightarrow> (w, Some (AttributeError ''_managing_transactions''))
      | Some m \<Rightarrow>
          if truthy m then
            (case restore_transaction_support self (transaction w) of
               (tr, Some e) \<Rightarrow> (w\<lparr>transaction := tr\<rparr>, Some e)
             | (tr, None) \<Rightarrow>
                 let w = w\<lparr>transaction := tr\<rparr>;
                     w = call (rollback (transaction w)) w;
                     w = emit Is_managed w;
                     w = (if managed then call (leave_transaction_management (transaction w)) w
                          else w);
                     w = emit Connection_close w
                 in (w, None))
          else (w, None))"

text \<open>
  \<open>beforeTest\<close>, statement by statement. The first block decides on isolation and
  either enters transaction management and patches the entry points, or flushes.
\<close>

definition beforeTest_isolation :: "NoseDjango \<Rightarrow> world \<Rightarrow> test \<Rightarrow> NoseDjango \<times> world" where
  "beforeTest_isolation self w t =
     (let transaction_support = supports_transactions t (django_settings w);
          self = self\<lparr>managing_transactions := Some transaction_support\<rparr>
      in if truthy transaction_support then
           let w = call (enter_transaction_management (transaction w)) w;
               w = emit (Managed True) w;
               (self, tr) = disable_transaction_support self (transaction w)
           in (self, w\<lparr>transaction := tr\<rparr>)
         else
           (self, emit (Call_command ''flush'' []
                          [(''verbosity'', PyInt 0), (''interactive'', PyBool False)]) w))"

text \<open>The second block: \<open>call_command('loaddata', *test.context.fixtures, verbosity=0)\<close>.\<close>

definition beforeTest_fixtures :: "world \<Rightarrow> test \<Rightarrow> world \<times> error option" where
  "beforeTest_fixtures w t =
     (if is_nose_Test t \<and> inner_class t = MethodTestCase then
        (case test_context t ''fixtures'' of
           None \<Rightarrow> (w, None)
         | Some fixtures \<Rightarrow>
             (case star_args fixtures of
                Inl e \<Rightarrow> (w, Some e)
              | Inr names \<Rightarrow>
                  (emit (Call_command ''loaddata'' names [(''verbosity'', PyInt 0)]) w, None)))
      else (w, None))"

text \<open>
  The third block saves \<open>settings.ROOT_URLCONF\<close> and then assigns \<open>self.urls\<close>, an
  attribute of the plugin instance, to it.
\<close>

definition beforeTest_urls ::
  "NoseDjango \<Rightarrow> world \<Rightarrow> test \<Rightarrow> NoseDjango \<times> world \<times> error option" where
  "beforeTest_urls self w t =
     (if is_nose_Test t \<and> inner_class t = MethodTestCase
         \<and> hasattr (test_context t) ''urls'' then
        (case django_settings w ''ROOT_URLCONF'' of
           None \<Rightarrow> (self, w, Some (AttributeError ''ROOT_URLCONF''))
         | Some root \<Rightarrow>
             let self = self\<lparr>old_urlconf := Some root\<rparr>
             in (case urls self of
                   None \<Rightarrow> (self, w, Some (AttributeError ''urls''))
                 | Some u \<Rightarrow>
                     (self,
                      emit Clear_url_caches
                        (w\<lparr>django_settings := (django_settings w)(''ROOT_URLCONF'' \<mapsto> u)\<rparr>),
                      None)))
      else (self, w, None))"

definition beforeTest :: "NoseDjango \<Rightarrow> world \<Rightarrow> test \<Rightarrow> NoseDjango \<times> world \<times> error option" where
  "beforeTest self w t =
     (case settings_path self of
        None \<Rightarrow> (self, w, Some (AttributeError ''settings_path''))
      | Some sp \<Rightarrow>
          if \<not> truthy sp then (self, w, None)
          else
            (case beforeTest_isolation self w t of
               (self, w) \<Rightarrow>
                 (case beforeTest_fixtures w t of
                    (w, Some e) \<Rightarrow> (self, w, Some e)
                  | (w, None) \<Rightarrow> beforeTest_urls self w t)))"

text \<open>
  \<open>finalize\<close>, with \<open>custom_after\<close>: of the three \<open>after\<close> hooks only the file-system
  one does anything, and it swallows the \<open>OSError\<close> of a missing directory.
  \<open>finalize\<close> imports \<open>teardown_test_environment\<close>, \<open>connection\<close> and \<open>settings\<close>;
  the name \<open>clear_url_caches\<close> in its last statement is none of its own and is looked
  up in the scope around the function, the argument \<open>scope\<close>, after the URL root has
  been assigned.
\<close>

definition custom_after :: "world \<Rightarrow> world" where
  "custom_after w = emit Clear_test_media w"

definition finalize :: "attrs \<Rightarrow> NoseDjango \<Rightarrow> world \<Rightarrow> world \<times> error option" where
  "finalize scope self w =
     (case settings_path self of
        None \<Rightarrow> (w, Some (AttributeError ''settings_path''))
      | Some sp \<Rightarrow>
          if \<not> truthy sp then (w, None)
          else
            let w = custom_after w
            in (case old_db self of
                  None \<Rightarrow> (w, Some (AttributeError ''old_db''))
                | Some db \<Rightarrow>
                    let w = emit (Destroy_test_db db (verbosity self)) w;
                        w = emit Teardown_test_environment w
                    in (case old_urlconf self of
                          None \<Rightarrow> (w, None)
                        | Some u \<Rightarrow>
                            let w = w\<lparr>django_settings :=
                                       (django_settings w)(''ROOT_URLCONF'' \<mapsto> u)\<rparr>
                            in (case scope ''clear_url_caches'' of
                                  None \<Rightarrow> (w, Some (NameError ''clear_url_caches''))
                                | Some f \<Rightarrow> (emit Clear_url_caches w, None)))))"

section \<open>One test under the runner\<close>

text \<open>
  The runner calls \<open>beforeTest\<close>, runs the test, and calls \<open>afterTest\<close> in a
  \<open>finally\<close> clause: also when \<open>beforeTest\<close> raised (the test is then reported as an
  error and its body does not run) and whatever the outcome of the body. The body is
  represented by what it can do to the transaction machinery: a sequence of calls to
  the six entry points, each looked up in the module at the time of the call.
\<close>

datatype entry_point =
  Commit | Rollback | Savepoint_commit | Savepoint_rollback | Enter | Leave

fun binding :: "entry_point \<Rightarrow> transaction_module \<Rightarrow> callable" where
  "binding Commit tr = commit tr"
| "binding Rollback tr = rollback tr"
| "binding Savepoint_commit tr = savepoint_commit tr"
| "binding Savepoint_rollback tr = savepoint_rollback tr"
| "binding Enter tr = enter_transaction_management tr"
| "binding Leave tr = leave_transaction_management tr"

definition invoke :: "entry_point \<Rightarrow> world \<Rightarrow> world" where
  "invoke ep w = call (binding ep (transaction w)) w"

definition test_body :: "entry_point list \<Rightarrow> world \<Rightarrow> world" where
  "test_body eps w = fold invoke eps w"

datatype outcome = Passed | Failed | Errored

definition run_test ::
  "NoseDjango \<Rightarrow> world \<Rightarrow> test \<Rightarrow> entry_point list \<Rightarrow> outcome \<Rightarrow> bool
     \<Rightarrow> NoseDjango \<times> world \<times> outcome \<times> error option" where
  "run_test self w t body result managed =
     (case beforeTest self w t of
        (self, w, Some e) \<Rightarrow>
          (case afterTest self w managed of (w, err) \<Rightarrow> (self, w, Errored, err))
      | (self, w, None) \<Rightarrow>
          (case afterTest self (test_body body w) managed of
             (w, err) \<Rightarrow> (self, w, result, err)))"

text \<open>Concrete states for the examples.\<close>

definition django_transaction :: transaction_module where
  "django_transaction =
     \<lparr> commit = Django ''commit'', rollback = Django ''rollback'',
       savepoint_commit = Django ''savepoint_commit'',
       savepoint_rollback = Django ''savepoint_rollback'',
       enter_transaction_management = Django ''enter_transaction_management'',
       leave_transaction_management = Django ''leave_transaction_management'' \<rparr>"

definition world0 :: world where
  "world0 = \<lparr> transaction = django_transaction,
     django_settings = [''ROOT_URLCONF'' \<mapsto> PyStr ''project.urls'',
                        ''DATABASE_NAME'' \<mapsto> PyStr ''project''],
     sys_path = [''/usr/lib/python2.6''], environ = Map.empty, trace = [] \<rparr>"

definition configured :: NoseDjango where
  "configured = \<lparr> verbosity = 1, settings_module = ''settings'', use_sqlite = False,
     xvfb_headless = None, conf_addPaths = True, conf_where = [],
     settings_path = None, old_db = None, managing_transactions = None,
     orig_commit = None, orig_rollback = None, orig_savepoint_commit = None,
     orig_savepoint_rollback = None, orig_enter = None, orig_leave = None,
     old_urlconf = None, urls = None \<rparr>"

definition begun :: NoseDjango where
  "begun = configured\<lparr>settings_path := Some (PyStr ''settings''),
                      old_db := Some (PyStr ''project'')\<rparr>"

section \<open>The live-server plugin\<close>










section \<open>The Selenium plugin\<close>

text \<open>
  \<open>SeleniumPlugin.afterTest\<close> reads the name \<open>driver_attr\<close>. The function binds only
  \<open>self\<close>, \<open>test\<close> and, by the assignment under way, \<open>driver\<close>; the name is therefore
  looked up in the scope around it, which is the argument \<open>scope\<close>; the module's own
  is \<open>module_scope\<close>, and no builtin of the language is called \<open>driver_attr\<close>.
\<close>

definition selenium_afterTest :: "attrs \<Rightarrow> test \<Rightarrow> world \<Rightarrow> world \<times> error option" where
  "selenium_afterTest scope t w =
     (if truthy (getattr_default (test_context t) ''selenium'' (PyBool False)) then
        (case scope ''driver_attr'' of
           None \<Rightarrow> (w, Some (NameError ''driver_attr''))
         | Some driver_attr \<Rightarrow>
             (case driver_attr of
                PyStr name \<Rightarrow>
                  (case inner_attrs t name of
                     None \<Rightarrow> (w, Some (AttributeError name))
                   | Some driver \<Rightarrow> (emit (Driver_quit driver) w, None))
              | _ \<Rightarrow> (w, Some TypeError)))
      else (w, None))"

section \<open>The search-daemon plugin\<close>

text \<open>
  An external process as the plugin observes it: what \<open>wait()\<close> returns, what
  \<open>poll()\<close> returns right after the launch (\<open>None\<close> while the process runs), and the
  two captured streams that \<open>communicate()\<close> hands back. Launching is the operating
  system's business: \<open>popen\<close> is a parameter, and may fail with \<open>OSError\<close>.
\<close>

record process =
  pid :: int
  wait_status :: int
  poll_status :: "int option"
  captured_stdout :: string
  captured_stderr :: string

record DjangoSphinxPlugin =
  sphinx_config_tpl :: "string option"
  tmp_sphinx_dir :: "string option"
  searchd_port :: "int option"
  searchd :: "process option"

definition sphinx_init :: DjangoSphinxPlugin where
  "sphinx_init = \<lparr> sphinx_config_tpl = None, tmp_sphinx_dir = None, searchd_port = None,
                    searchd = None \<rparr>"





text \<open>
  \<open>configure\<close> creates the temporary directory only under
  \<open>if options.sphinx_config_tpl\<close>; \<open>abspath\<close> and the name \<open>mkdtemp\<close> returns come
  from the operating system. \<open>finalize\<close> reads \<open>self.tmp_sphinx_dir\<close> and removes the
  tree with \<open>ignore_errors=True\<close>, which never raises.
\<close>

definition sphinx_configure ::
  "(string \<Rightarrow> string) \<Rightarrow> string \<Rightarrow> string option \<Rightarrow> DjangoSphinxPlugin \<Rightarrow> world
     \<Rightarrow> DjangoSphinxPlugin \<times> world" where
  "sphinx_configure abspath mkdtemp option_sphinx_config_tpl self w =
     (case option_sphinx_config_tpl of
        None \<Rightarrow> (self, w)
      | Some tpl \<Rightarrow>
          if tpl \<noteq> [] then
            (self\<lparr>sphinx_config_tpl := Some (abspath tpl),
                  tmp_sphinx_dir := Some mkdtemp,
                  searchd_port := Some 45798\<rparr>,
             emit (Mkdtemp mkdtemp) w)
          else (self, w))"

definition sphinx_finalize :: "DjangoSphinxPlugin \<Rightarrow> world \<Rightarrow> world \<times> error option" where
  "sphinx_finalize self w =
     (case tmp_sphinx_dir self of
        None \<Rightarrow> (w, Some (AttributeError ''tmp_sphinx_dir''))
      | Some dir \<Rightarrow> (emit (Rmtree dir True) w, None))"





section \<open>The start of the run\<close>

text \<open>
  What \<open>begin\<close> and \<open>get_settings_path\<close> ask of their surroundings: the operating
  system (\<open>os.name\<close>, \<open>os.getcwd()\<close>, \<open>os.listdir\<close>, which fails with \<open>OSError\<close>
  where it is \<open>None\<close>, \<open>os.path.split\<close>, the launching of processes), the
  interpreter's \<open>__import__\<close> (\<open>None\<close> when it succeeds, the exception otherwise) and
  the runner's \<open>add_path\<close>, which puts a directory on \<open>sys.path\<close>.
\<close>

record environment =
  os_name :: string
  getcwd :: string
  listdir :: "string \<Rightarrow> string list option"
  path_split :: "string \<Rightarrow> string \<times> string"
  try_import :: "string \<Rightarrow> error option"
  add_path :: "string \<Rightarrow> string list \<Rightarrow> string list"
  subprocess_popen :: "string list \<Rightarrow> error + process"

text \<open>
  \<open>NT_ROOT.match\<close> for the pattern \<open>^[a-zA-Z]:\\$\<close>: a letter, a colon and a
  backslash, and \<open>$\<close> also matches before one final newline.
\<close>

definition is_ascii_letter :: "char \<Rightarrow> bool" where
  "is_ascii_letter c \<longleftrightarrow>
     ((65::nat) \<le> of_char c \<and> (of_char c :: nat) \<le> 90)
     \<or> ((97::nat) \<le> of_char c \<and> (of_char c :: nat) \<le> 122)"

fun NT_ROOT_match :: "string \<Rightarrow> bool" where
  "NT_ROOT_match [d, c, b] = (is_ascii_letter d \<and> c = CHR '':'' \<and> b = CHR 0x5C)"
| "NT_ROOT_match [d, c, b, n] =
     (is_ascii_letter d \<and> c = CHR '':'' \<and> b = CHR 0x5C \<and> n = CHR 0x0A)"
| "NT_ROOT_match s = False"

text \<open>\<open>'%s.py' % settings_module.split('.')[-1]\<close>.\<close>

definition settings_filename :: "string \<Rightarrow> string" where
  "settings_filename module_name =
     rev (takeWhile (\<lambda>c. c \<noteq> CHR ''.'') (rev module_name)) @ ''.py''"

text \<open>
  The loop of \<open>get_settings_path\<close>, with \<open>cwd\<close> as its state. Nothing bounds the
  number of iterations for an arbitrary \<open>os.path.split\<close>, so the loop is a partial
  function: \<open>None\<close> is a loop that never ends, \<open>Some (Inr None)\<close> is
  \<open>return None\<close>, and \<open>Some (Inr (Some cwd))\<close> is \<open>return cwd\<close>, reached by
  \<open>break\<close> or by an empty \<open>cwd\<close>.
\<close>

partial_function (option) walk_up ::
  "environment \<Rightarrow> string \<Rightarrow> string \<Rightarrow> (error + string option) option" where
  "walk_up os filename cwd =
     (if cwd = [] then Some (Inr (Some cwd))
      else (case listdir os cwd of
              None \<Rightarrow> Some (Inl OSError)
            | Some names \<Rightarrow>
                if filename \<in> set names then Some (Inr (Some cwd))
                else if os_name os = ''nt'' \<and> NT_ROOT_match (fst (path_split os cwd))
                  then Some (Inr None)
                else if fst (path_split os cwd) = ''/'' then Some (Inr None)
                else walk_up os filename (fst (path_split os cwd))))"

definition get_settings_path ::
  "environment \<Rightarrow> string \<Rightarrow> (error + string option) option" where
  "get_settings_path os module_name =
     walk_up os (settings_filename module_name) (getcwd os)"

text \<open>
  \<open>begin\<close>. First the two statements that set the environment variable and add the
  working directories to the path; then the \<open>try\<close> block around \<open>__import__\<close>,
  whose handler catches \<open>ImportError\<close> only; then the rest, which configures and
  creates the test database.
\<close>

definition begin_paths :: "environment \<Rightarrow> NoseDjango \<Rightarrow> world \<Rightarrow> world" where
  "begin_paths os self w =
     (let w = w\<lparr>environ := (environ w)(''DJANGO_SETTINGS_MODULE'' \<mapsto> settings_module self)\<rparr>
      in if conf_addPaths self
         then w\<lparr>sys_path := fold (add_path os) (conf_where self) (sys_path w)\<rparr>
         else w)"

definition begin_locate ::
  "environment \<Rightarrow> NoseDjango \<Rightarrow> world \<Rightarrow> ((NoseDjango \<times> world) \<times> error option) option" where
  "begin_locate os self w =
     (case try_import os (settings_module self) of
        None \<Rightarrow> Some ((self\<lparr>settings_path := Some (PyStr (settings_module self))\<rparr>, w), None)
      | Some e \<Rightarrow>
          if e = ImportError then
            (case get_settings_path os (settings_module self) of
               None \<Rightarrow> None
             | Some (Inl e') \<Rightarrow> Some ((self, w), Some e')
             | Some (Inr None) \<Rightarrow>
                 Some ((self\<lparr>settings_path := Some PyNone\<rparr>, w),
                       Some (RuntimeError ''Can't find Django settings file!''))
             | Some (Inr (Some dir)) \<Rightarrow>
                 if dir = [] then
                   Some ((self\<lparr>settings_path := Some (PyStr dir)\<rparr>, w),
                         Some (RuntimeError ''Can't find Django settings file!''))
                 else
                   Some ((self\<lparr>settings_path := Some (PyStr dir)\<rparr>,
                          w\<lparr>sys_path := add_path os dir (sys_path w) @ [dir]\<rparr>), None))
          else Some ((self, w), Some e))"

definition custom_before :: "world \<Rightarrow> world" where
  "custom_before w =
     w\<lparr>django_settings := (django_settings w)
          (''DOCUMENT_PRINTING_CACHE_ON_SAVE'' \<mapsto> PyBool False,
           ''DEFAULT_FILE_STORAGE'' \<mapsto> PyStr ''nosedjango.nosedjango.TestFileSystemStorage'',
           ''CELERY_ALWAYS_EAGER'' \<mapsto> PyBool True,
           ''CACHE_BACKEND'' \<mapsto> PyStr ''locmem://'',
           ''DISABLE_QUERYSET_CACHE'' \<mapsto> PyBool True)\<rparr>"

definition xvfb_command :: "string \<Rightarrow> string \<Rightarrow> string list" where
  "xvfb_command program display =
     [program, '':'' @ display, ''-ac'', ''-screen'', ''root'', ''1024x768x24'']"

definition begin_setup ::
  "environment \<Rightarrow> NoseDjango \<Rightarrow> world \<Rightarrow> (NoseDjango \<times> world) \<times> error option" where
  "begin_setup os self w =
     (let w = (if use_sqlite self
               then w\<lparr>django_settings := (django_settings w)
                        (''DATABASE_ENGINE'' \<mapsto> PyStr ''sqlite3'',
                         ''DATABASE_NAME'' \<mapsto> PyStr [],
                         ''DATABASE_OPTIONS'' \<mapsto> PyDict [],
                         ''DATABASE_USER'' \<mapsto> PyStr [],
                         ''DATABASE_PASSWORD'' \<mapsto> PyStr [])\<rparr>
               else w);
          xvfb =
            (case xvfb_headless self of
               None \<Rightarrow> (w, None)
             | Some display \<Rightarrow>
                 if display = [] then (w, None)
                 else
                   (case (case subprocess_popen os (xvfb_command ''xvfb'' display) of
                            Inr p \<Rightarrow> (emit (Popen (xvfb_command ''xvfb'' display)) w, None)
                          | Inl e \<Rightarrow>
                              if e = OSError then
                                (case subprocess_popen os (xvfb_command ''Xvfb'' display) of
                                   Inr p \<Rightarrow> (emit (Popen (xvfb_command ''Xvfb'' display)) w, None)
                                 | Inl e' \<Rightarrow> (w, Some e'))
                              else (w, Some e)) of
                      (w, Some e) \<Rightarrow> (w, Some e)
                    | (w, None) \<Rightarrow>
                        (w\<lparr>environ := (environ w)(''DISPLAY'' \<mapsto> '':'' @ display)\<rparr>, None)))
      in case xvfb of
           (w, Some e) \<Rightarrow> ((self, w), Some e)
         | (w, None) \<Rightarrow>
             let w = custom_before w;
                 w = w\<lparr>django_settings := (django_settings w)(''DEBUG'' \<mapsto> PyBool False)\<rparr>
             in (case django_settings w ''DATABASE_NAME'' of
                   None \<Rightarrow> ((self, w), Some (AttributeError ''DATABASE_NAME''))
                 | Some name \<Rightarrow>
                     let self = self\<lparr>old_db := Some name\<rparr>;
                         w = emit Setup_test_environment w;
                         w = emit Get_commands w;
                         w = emit (Register_command ''syncdb'' ''django.core'') w;
                         w = emit (Create_test_db (verbosity self)) w
                     in ((self, w), None)))"

definition plugin_begin ::
  "environment \<Rightarrow> NoseDjango \<Rightarrow> world \<Rightarrow> ((NoseDjango \<times> world) \<times> error option) option" where
  "plugin_begin os self w =
     (case begin_locate os self (begin_paths os self w) of
        None \<Rightarrow> None
      | Some ((self, w), Some e) \<Rightarrow> Some ((self, w), Some e)
      | Some ((self, w), None) \<Rightarrow> Some (begin_setup os self w))"

text \<open>
  \<open>posixpath.split\<close>, which \<open>os.path.split\<close> is on POSIX systems: the head is
  everything up to the last slash, with trailing slashes removed unless it consists of
  slashes only.
\<close>

definition posix_split :: "string \<Rightarrow> string \<times> string" where
  "posix_split p =
     (let head = rev (dropWhile (\<lambda>c. c \<noteq> CHR ''/'') (rev p));
          tail = rev (takeWhile (\<lambda>c. c \<noteq> CHR ''/'') (rev p));
          head = (if head \<noteq> [] \<and> head \<noteq> replicate (length head) CHR ''/''
                  then rev (dropWhile (\<lambda>c. c = CHR ''/'') (rev head)) else head)
      in (head, tail))"

text \<open>
  \<open>ntpath.split\<close>, which \<open>os.path.split\<close> is on Windows: the drive (a letter and a
  colon, when the second character is a colon) is set apart, the head is the rest up to
  the last slash or backslash, with trailing separators removed unless nothing else is
  left, and the drive is put back in front.
\<close>

definition nt_sep :: "char \<Rightarrow> bool" where
  "nt_sep c \<longleftrightarrow> c = CHR ''/'' \<or> c = CHR 0x5C"

definition nt_splitdrive :: "string \<Rightarrow> string \<times> string" where
  "nt_splitdrive p = (if take 1 (drop 1 p) = '':'' then (take 2 p, drop 2 p) else ([], p))"

definition nt_split :: "string \<Rightarrow> string \<times> string" where
  "nt_split p =
     (case nt_splitdrive p of
        (d, p) \<Rightarrow>
          let head = rev (dropWhile (\<lambda>c. \<not> nt_sep c) (rev p));
              tail = rev (takeWhile (\<lambda>c. \<not> nt_sep c) (rev p));
              head2 = rev (dropWhile nt_sep (rev head));
              head = (if head2 \<noteq> [] then head2 else head)
          in (d @ head, tail))"

text \<open>
  \<open>nose.importer.add_path\<close> as \<open>begin\<close> calls it (no \<open>config\<close>): a directory that
  holds \<open>__init__.py\<close> and has a parent is a package, and the parent is added in its
  place; any other directory is inserted at the front of \<open>sys.path\<close> unless it is on
  it already. \<open>ls\<close> is the directory listing and \<open>split\<close> is \<open>os.path.split\<close>, whose
  head is \<open>os.path.dirname\<close>. A parent is shorter than its directory except at a
  root; there the source would call itself without end, and the directory is taken as
  no package.
\<close>

definition is_package :: "(string \<Rightarrow> string list option) \<Rightarrow> string \<Rightarrow> bool" where
  "is_package ls dir = (case ls dir of None \<Rightarrow> False | Some names \<Rightarrow> ''__init__.py'' \<in> set names)"

function nose_add_path ::
  "(string \<Rightarrow> string list option) \<Rightarrow> (string \<Rightarrow> string \<times> string) \<Rightarrow> string \<Rightarrow> string list
     \<Rightarrow> string list" where
  "nose_add_path ls split path sp =
     (if path = [] then sp
      else if fst (split path) \<noteq> [] \<and> is_package ls path
              \<and> length (fst (split path)) < length path
        then nose_add_path ls split (fst (split path)) sp
      else if path \<in> set sp then sp
      else path # sp)"
  by pat_completeness auto

termination
  by (relation "measure (\<lambda>(ls, split, path, sp). length path)") auto

declare nose_add_path.simps [simp del]

section \<open>Vocabulary of the properties\<close>

text \<open>
  What the plugin has saved agrees with a given set of bindings; the saved originals as
  a tuple; and the events the properties single out.
\<close>

definition saved_originals :: "NoseDjango \<Rightarrow> transaction_module \<Rightarrow> bool" where
  "saved_originals self tr \<longleftrightarrow>
     orig_commit self = Some (commit tr) \<and> orig_rollback self = Some (rollback tr)
     \<and> orig_savepoint_commit self = Some (savepoint_commit tr)
     \<and> orig_savepoint_rollback self = Some (savepoint_rollback tr)
     \<and> orig_enter self = Some (enter_transaction_management tr)
     \<and> orig_leave self = Some (leave_transaction_management tr)"

definition saved_bindings ::
  "NoseDjango \<Rightarrow> callable option \<times> callable option \<times> callable option
      \<times> callable option \<times> callable option \<times> callable option" where
  "saved_bindings self =
     (orig_commit self, orig_rollback self, orig_savepoint_commit self,
      orig_savepoint_rollback self, orig_enter self, orig_leave self)"

definition is_transaction_event :: "event \<Rightarrow> bool" where
  "is_transaction_event e =
     (case e of Transaction_call name \<Rightarrow> True | Managed b \<Rightarrow> True | _ \<Rightarrow> False)"

definition is_loaddata :: "event \<Rightarrow> bool" where
  "is_loaddata e = (case e of Call_command name args kwargs \<Rightarrow> name = ''loaddata'' | _ \<Rightarrow> False)"

definition flush_command :: event where
  "flush_command =
     Call_command ''flush'' [] [(''verbosity'', PyInt 0), (''interactive'', PyBool False)]"

definition loaddata_command :: "pyval list \<Rightarrow> event" where
  "loaddata_command names = Call_command ''loaddata'' names [(''verbosity'', PyInt 0)]"

text \<open>Tests and plugin states for the examples.\<close>

definition opted_out_test :: test where
  "opted_out_test = plain_test\<lparr>test_context := [''use_transaction'' \<mapsto> PyBool False]\<rparr>"

definition unittest_with_fixtures :: test where
  "unittest_with_fixtures =
     plain_test\<lparr>inner_class := UnittestTestCase,
                 test_context := [''fixtures'' \<mapsto> PyList [PyStr ''a'', PyStr ''b'']]\<rparr>"

definition method_test_with_fixtures :: test where
  "method_test_with_fixtures =
     plain_test\<lparr>test_context := [''fixtures'' \<mapsto> PyList [PyStr ''a'', PyStr ''b'']]\<rparr>"

definition method_test_with_urls :: test where
  "method_test_with_urls = plain_test\<lparr>test_context := [''urls'' \<mapsto> PyStr ''tests.urls'']\<rparr>"







definition selenium_test :: test where
  "selenium_test = plain_test\<lparr>test_context := [''selenium'' \<mapsto> PyBool True],
                              inner_attrs := [''driver'' \<mapsto> PyObject ''webdriver'']\<rparr>"







text \<open>
  An absolute path in the form \<open>os.getcwd()\<close> returns it is the root, or a slash
  before each of its components; the directories from such a path upward, nearest
  first, end below the root (and are the root alone when the path is the root); a
  directory contains a file when its listing succeeds and has the name.
\<close>

definition component :: "string \<Rightarrow> bool" where
  "component c \<longleftrightarrow> c \<noteq> [] \<and> CHR ''/'' \<notin> set c"

definition join_abs :: "string list \<Rightarrow> string" where
  "join_abs cs = (if cs = [] then ''/'' else concat (map (\<lambda>c. CHR ''/'' # c) cs))"

definition dirs_upward :: "string list \<Rightarrow> string list" where
  "dirs_upward cs =
     (if cs = [] then [''/'']
      else map (\<lambda>k. join_abs (take k cs)) (rev [1..<Suc (length cs)]))"

definition contains_file :: "environment \<Rightarrow> string \<Rightarrow> string \<Rightarrow> bool" where
  "contains_file os filename dir =
     (case listdir os dir of None \<Rightarrow> False | Some names \<Rightarrow> filename \<in> set names)"

definition settings_not_found :: error where
  "settings_not_found = RuntimeError ''Can't find Django settings file!''"

text \<open>
  The walk of \<open>get_settings_path\<close> in terms of \<open>os.path.split\<close> alone: it stops
  before a directory that is a drive root (on Windows) or the root; a list of
  directories is what the walk visits when each is listable, each next one is the parent
  of the one before and no stop, and the parent of the last is a stop.
\<close>

definition stop :: "environment \<Rightarrow> string \<Rightarrow> bool" where
  "stop os dir \<longleftrightarrow> (os_name os = ''nt'' \<and> NT_ROOT_match dir) \<or> dir = ''/''"

fun visits :: "environment \<Rightarrow> string list \<Rightarrow> bool" where
  "visits os [] = False"
| "visits os [d] = (d \<noteq> [] \<and> listdir os d \<noteq> None \<and> stop os (fst (path_split os d)))"
| "visits os (d # d' # ds) =
     (d \<noteq> [] \<and> listdir os d \<noteq> None \<and> d' = fst (path_split os d) \<and> \<not> stop os d'
      \<and> visits os (d' # ds))"

text \<open>
  Windows paths in the form \<open>os.getcwd()\<close> returns them: a drive letter, a colon and
  a backslash before each component (the drive root when there is none), and the
  directories upward as for POSIX. Names on Windows hold no separator and no control
  character.
\<close>

definition nt_component :: "string \<Rightarrow> bool" where
  "nt_component c \<longleftrightarrow> c \<noteq> [] \<and> (\<forall>x\<in>set c. \<not> nt_sep x \<and> x \<noteq> CHR 0x0A)"

definition nt_tail :: "string list \<Rightarrow> string" where
  "nt_tail cs = (if cs = [] then [CHR 0x5C] else concat (map (\<lambda>c. CHR 0x5C # c) cs))"

definition nt_join :: "char \<Rightarrow> string list \<Rightarrow> string" where
  "nt_join drive cs = drive # CHR '':'' # nt_tail cs"

definition nt_dirs_upward :: "char \<Rightarrow> string list \<Rightarrow> string list" where
  "nt_dirs_upward drive cs =
     (if cs = [] then [nt_join drive []]
      else map (\<lambda>k. nt_join drive (take k cs)) (rev [1..<Suc (length cs)]))"

text \<open>The import search path that a returning or raising \<open>begin\<close> leaves behind.\<close>

definition path_after :: "((NoseDjango \<times> world) \<times> error option) option \<Rightarrow> string list option" where
  "path_after r = map_option (\<lambda>x. sys_path (snd (fst x))) r"

text \<open>
  For the examples: a project tree with \<open>settings.py\<close> one level above the working
  directory, the same tree with the project and the application as packages, and the
  same project on a Windows drive; in each environment \<open>add_path\<close> is the runner's.
\<close>

definition lib_path :: "string list" where
  "lib_path = [''/usr/lib/python2.6'']"

definition project_tree :: "string \<Rightarrow> string list option" where
  "project_tree dir =
     (if dir = ''/home/me/project/app'' then Some [''models.py'', ''tests.py'']
      else if dir = ''/home/me/project'' then Some [''app'', ''settings.py'']
      else if dir = ''/home/me'' then Some [''project'']
      else if dir = ''/home'' then Some [''me'']
      else if dir = ''/'' then Some [''home'']
      else None)"

definition package_tree :: "string \<Rightarrow> string list option" where
  "package_tree dir =
     (if dir = ''/home/me/project/app'' then Some [''__init__.py'', ''models.py'', ''tests.py'']
      else if dir = ''/home/me/project'' then Some [''__init__.py'', ''app'', ''settings.py'']
      else if dir = ''/home/me'' then Some [''project'']
      else if dir = ''/home'' then Some [''me'']
      else if dir = ''/'' then Some [''home'']
      else None)"

definition posix_plain :: environment where
  "posix_plain =
     \<lparr> os_name = ''posix'', getcwd = ''/home/me/project/app'', listdir = project_tree,
       path_split = posix_split, try_import = (\<lambda>name. Some ImportError),
       add_path = nose_add_path project_tree posix_split,
       subprocess_popen = (\<lambda>cmd. Inl OSError) \<rparr>"

definition posix_package :: environment where
  "posix_package =
     \<lparr> os_name = ''posix'', getcwd = ''/home/me/project/app'', listdir = package_tree,
       path_split = posix_split, try_import = (\<lambda>name. Some ImportError),
       add_path = nose_add_path package_tree posix_split,
       subprocess_popen = (\<lambda>cmd. Inl OSError) \<rparr>"

definition nt_app_dir :: "string list" where
  "nt_app_dir = [''proj'', ''app'']"

definition nt_tree :: "string \<Rightarrow> string list option" where
  "nt_tree dir =
     (if dir = nt_join CHR ''C'' [''proj'', ''app''] then Some [''models.py'', ''tests.py'']
      else if dir = nt_join CHR ''C'' [''proj''] then Some [''app'', ''settings.py'']
      else if dir = nt_join CHR ''C'' [] then Some [''proj'']
      else None)"

definition nt_project :: environment where
  "nt_project =
     \<lparr> os_name = ''nt'', getcwd = nt_join CHR ''C'' nt_app_dir, listdir = nt_tree,
       path_split = nt_split, try_import = (\<lambda>name. Some ImportError),
       add_path = nose_add_path nt_tree nt_split,
       subprocess_popen = (\<lambda>cmd. Inl OSError) \<rparr>"

definition app_dir :: "string list" where
  "app_dir = [''home'', ''me'', ''project'', ''app'']"

definition project_plugin :: NoseDjango where
  "project_plugin = configured\<lparr>settings_module := ''project.settings''\<rparr>"

definition conf_plugin :: NoseDjango where
  "conf_plugin = configured\<lparr>settings_module := ''conf''\<rparr>"

section \<open>Theorems\<close>

subsection \<open>Helper facts\<close>

lemmas example_defs =
  plain_test_def begun_def configured_def world0_def django_transaction_def

lemmas beforeTest_defs =
  beforeTest_def beforeTest_isolation_def beforeTest_fixtures_def
  beforeTest_urls_def supports_transactions_def disable_transaction_support_def
  call_def emit_def hasattr_def Let_def

lemma restore_disable:
  "restore_transaction_support (fst (disable_transaction_support self tr)) tr'
     = (tr'\<lparr>commit := commit tr, rollback := rollback tr,
            savepoint_commit := savepoint_commit tr,
            savepoint_rollback := savepoint_rollback tr,
            enter_transaction_management := enter_transaction_management tr,
            leave_transaction_management := leave_transaction_management tr\<rparr>, None)"
  by (simp add: restore_transaction_support_def disable_transaction_support_def)

lemma transaction_call [simp]: "transaction (call f w) = transaction w"
  by (simp add: call_def emit_def split: callable.splits)

lemma transaction_emit [simp]: "transaction (emit e w) = transaction w"
  by (simp add: emit_def)

lemma transaction_invoke [simp]: "transaction (invoke ep w) = transaction w"
  by (simp add: invoke_def)

lemma transaction_test_body [simp]: "transaction (test_body eps w) = transaction w"
  unfolding test_body_def by (induction eps arbitrary: w) simp_all

lemma restore_saved:
  "saved_originals self tr \<Longrightarrow> restore_transaction_support self tr' = (tr, None)"
  by (simp add: saved_originals_def restore_transaction_support_def)

lemma afterTest_saved:
  assumes "saved_originals self tr" "managing_transactions self = Some m" "truthy m"
  shows "transaction (fst (afterTest self w managed)) = tr"
    and "snd (afterTest self w managed) = None"
  using assms by (simp_all add: afterTest_def restore_saved Let_def)

lemma urls_keeps:
  "beforeTest_urls self w t = (self', w', err) \<Longrightarrow>
     transaction w' = transaction w \<and> saved_originals self' tr = saved_originals self tr
     \<and> managing_transactions self' = managing_transactions self"
  by (auto simp: beforeTest_urls_def saved_originals_def Let_def split: option.splits if_splits)

lemma isolation_saved:
  assumes "truthy (supports_transactions t (django_settings w))"
     and "beforeTest_isolation self w t = (self', w')"
  shows "saved_originals self' (transaction w)"
    and "managing_transactions self' = Some (supports_transactions t (django_settings w))"
  using assms
  by (auto simp: beforeTest_isolation_def Let_def disable_transaction_support_def saved_originals_def)

lemma beforeTest_saved:
  assumes "settings_path self = Some sp" "truthy sp"
    and "truthy (supports_transactions t (django_settings w))"
    and "beforeTest self w t = (self', w', err)"
  shows "saved_originals self' (transaction w)
     \<and> managing_transactions self' = Some (supports_transactions t (django_settings w))"
proof -
  obtain s1 w1 where iso: "beforeTest_isolation self w t = (s1, w1)"
    by (cases "beforeTest_isolation self w t")
  obtain w2 e2 where fx: "beforeTest_fixtures w1 t = (w2, e2)"
    by (cases "beforeTest_fixtures w1 t")
  have s1: "saved_originals s1 (transaction w)"
    "managing_transactions s1 = Some (supports_transactions t (django_settings w))"
    using isolation_saved [OF assms(3) iso] by simp_all
  show ?thesis
  proof (cases e2)
    case (Some e)
    with assms(1,2,4) iso fx have "self' = s1" by (simp add: beforeTest_def)
    with s1 show ?thesis by simp
  next
    case None
    with assms(1,2,4) iso fx have "beforeTest_urls s1 w2 t = (self', w', err)"
      by (simp add: beforeTest_def)
    from urls_keeps [OF this] s1 show ?thesis by simp
  qed
qed

lemma isolation_flush:
  assumes "\<not> truthy (supports_transactions t (django_settings w))"
  shows "beforeTest_isolation self w t =
     (self\<lparr>managing_transactions := Some (supports_transactions t (django_settings w))\<rparr>,
      emit flush_command w)"
  using assms by (simp add: beforeTest_isolation_def flush_command_def)

lemma isolation_block:
  "beforeTest_isolation self w t = (self', w') \<Longrightarrow>
     django_settings w' = django_settings w \<and> old_urlconf self' = old_urlconf self
     \<and> urls self' = urls self
     \<and> (\<exists>es. trace w' = trace w @ es \<and> (\<forall>e\<in>set es. \<not> is_loaddata e)
               \<and> Clear_url_caches \<notin> set es)"
  by (auto simp: beforeTest_isolation_def Let_def disable_transaction_support_def emit_def
      call_def is_loaddata_def split: if_splits callable.splits)

lemma fixtures_block:
  "beforeTest_fixtures w t = (w', err) \<Longrightarrow>
     transaction w' = transaction w \<and> django_settings w' = django_settings w
     \<and> (\<exists>es. trace w' = trace w @ es \<and> (\<forall>e\<in>set es. \<not> is_transaction_event e))"
  by (auto simp: beforeTest_fixtures_def emit_def is_transaction_event_def
      split: option.splits sum.splits if_splits)

lemma fixtures_loaded:
  assumes "is_nose_Test t" "inner_class t = MethodTestCase"
    and "test_context t ''fixtures'' = Some (PyList names)"
  shows "beforeTest_fixtures w t = (emit (loaddata_command names) w, None)"
  using assms by (simp add: beforeTest_fixtures_def loaddata_command_def)

lemma urls_block:
  "beforeTest_urls self w t = (self', w', err) \<Longrightarrow>
     transaction w' = transaction w \<and> saved_bindings self' = saved_bindings self
     \<and> managing_transactions self' = managing_transactions self
     \<and> (\<exists>es. trace w' = trace w @ es \<and> set es \<subseteq> {Clear_url_caches})"
  by (auto simp: beforeTest_urls_def emit_def saved_bindings_def Let_def
      split: option.splits if_splits)

lemma urls_skipped:
  assumes "\<not> (is_nose_Test t \<and> inner_class t = MethodTestCase)"
  shows "beforeTest_urls self w t = (self, w, None)"
  using assms by (auto simp: beforeTest_urls_def)

lemma beforeTest_unguarded:
  assumes "\<not> (is_nose_Test t \<and> inner_class t = MethodTestCase)"
  shows "old_urlconf (fst (beforeTest self w t)) = old_urlconf self
     \<and> django_settings (fst (snd (beforeTest self w t))) = django_settings w
     \<and> (\<exists>es. trace (fst (snd (beforeTest self w t))) = trace w @ es
            \<and> Clear_url_caches \<notin> set es \<and> (\<forall>e\<in>set es. \<not> is_loaddata e))"
proof (cases "\<exists>sp. settings_path self = Some sp \<and> truthy sp")
  case False
  then show ?thesis by (auto simp: beforeTest_def split: option.splits)
next
  case True
  then obtain sp where sp: "settings_path self = Some sp" "truthy sp" by blast
  obtain s1 w1 where iso: "beforeTest_isolation self w t = (s1, w1)"
    by (cases "beforeTest_isolation self w t")
  have fx: "beforeTest_fixtures w1 t = (w1, None)"
    using assms by (auto simp: beforeTest_fixtures_def)
  have "beforeTest self w t = (s1, w1, None)"
    using sp iso fx urls_skipped [OF assms] by (simp add: beforeTest_def)
  with isolation_block [OF iso] show ?thesis by auto
qed

subsection \<open>Transaction eligibility\<close>

text \<open>
  What the function computes: the capability flag can veto; otherwise the
  \<open>DISABLE_TRANSACTION_MANAGEMENT\<close> setting decides alone whenever it is present,
  and the test's own preference counts only when that setting is absent.
\<close>

lemma supports_transactions_truthy:
  "truthy (supports_transactions t s) \<longleftrightarrow>
     \<not> capability_vetoes s
     \<and> (case s ''DISABLE_TRANSACTION_MANAGEMENT'' of
           Some disable \<Rightarrow> \<not> truthy disable
         | None \<Rightarrow> \<not> test_vetoes t)"
  by (simp add: supports_transactions_def capability_vetoes_def test_vetoes_def
      split: option.splits)

text \<open>
  C1 (fails on the code). The claim: every signal can only veto, so the result is true
  exactly when no present signal vetoes. The code assigns the negated
  \<open>DISABLE_TRANSACTION_MANAGEMENT\<close> setting whenever that setting is present, which
  discards the test's own \<open>use_transaction = False\<close>: for a test that opts out, under
  settings that carry \<open>DISABLE_TRANSACTION_MANAGEMENT = False\<close>, the test vetoes and
  the result is nevertheless \<open>True\<close>.
\<close>

theorem supports_transactions_overrides_test_veto:
  "test_vetoes (plain_test\<lparr>test_context := [''use_transaction'' \<mapsto> PyBool False]\<rparr>)
   \<and> \<not> disabled_vetoes [''DISABLE_TRANSACTION_MANAGEMENT'' \<mapsto> PyBool False]
   \<and> \<not> capability_vetoes [''DISABLE_TRANSACTION_MANAGEMENT'' \<mapsto> PyBool False]
   \<and> supports_transactions (plain_test\<lparr>test_context := [''use_transaction'' \<mapsto> PyBool False]\<rparr>)
        [''DISABLE_TRANSACTION_MANAGEMENT'' \<mapsto> PyBool False] = PyBool True"
  by (simp add: test_vetoes_def disabled_vetoes_def capability_vetoes_def
      supports_transactions_def hasattr_def plain_test_def)

subsection \<open>Patching and restoring the transaction entry points\<close>

text \<open>
  C2. For a test that runs with transactional isolation (the plugin has a settings path
  and \<open>_supports_transactions\<close> answers true), once \<open>afterTest\<close> has run the six
  entry points of the transaction module are bound exactly as they were before
  \<open>beforeTest\<close>, and \<open>afterTest\<close> raises nothing: whatever calls the body made
  through the patched entry points, whatever its outcome, whatever \<open>is_managed()\<close>
  answers, and also when \<open>beforeTest\<close> itself raised after patching. In particular
  \<open>restore_transaction_support\<close> after \<open>disable_transaction_support\<close> gives back the
  module it started from, for any plugin state and any bindings.
\<close>

theorem afterTest_restores_bindings:
  assumes "settings_path self = Some sp" and "truthy sp"
    and "truthy (supports_transactions t (django_settings w))"
    and "run_test self w t body result managed = (self', w', res, err)"
  shows "transaction w' = transaction w \<and> err = None
     \<and> restore_transaction_support (fst (disable_transaction_support self0 tr))
           (snd (disable_transaction_support self0 tr)) = (tr, None)"
proof -
  obtain s1 w1 e1 where bt: "beforeTest self w t = (s1, w1, e1)"
    by (metis prod_cases3)
  from beforeTest_saved [OF assms(1,2,3) bt]
  have sv: "saved_originals s1 (transaction w)"
    "managing_transactions s1 = Some (supports_transactions t (django_settings w))"
    by simp_all
  have "transaction w' = transaction w \<and> err = None"
  proof (cases e1)
    case None
    with bt assms(4) have "w' = fst (afterTest s1 (test_body body w1) managed)"
      "err = snd (afterTest s1 (test_body body w1) managed)"
      by (auto simp: run_test_def split: prod.splits)
    with afterTest_saved [OF sv assms(3)] show ?thesis by simp
  next
    case (Some e)
    with bt assms(4) have "w' = fst (afterTest s1 w1 managed)"
      "err = snd (afterTest s1 w1 managed)"
      by (auto simp: run_test_def split: prod.splits)
    with afterTest_saved [OF sv assms(3)] show ?thesis by simp
  qed
  then show ?thesis by (simp add: restore_disable)
qed

text \<open>
  An instance: a failing test that calls \<open>commit\<close> and \<open>rollback\<close>. Neither call
  reaches the framework; the trace holds what \<open>beforeTest\<close> and \<open>afterTest\<close> did.
\<close>

theorem afterTest_restores_bindings_witness:
  "settings_path begun = Some (PyStr ''settings'') \<and> truthy (PyStr ''settings'')
   \<and> truthy (supports_transactions plain_test (django_settings world0))
   \<and> transaction (fst (snd (run_test begun world0 plain_test [Commit, Rollback] Failed True)))
       = transaction world0
   \<and> snd (snd (snd (run_test begun world0 plain_test [Commit, Rollback] Failed True))) = None
   \<and> trace (fst (snd (run_test begun world0 plain_test [Commit, Rollback] Failed True)))
       = [Transaction_call ''enter_transaction_management'', Managed True,
          Transaction_call ''rollback'', Is_managed,
          Transaction_call ''leave_transaction_management'', Connection_close]"
proof -
  let ?r = "run_test begun world0 plain_test [Commit, Rollback] Failed True"
  have h: "settings_path begun = Some (PyStr ''settings'')" "truthy (PyStr ''settings'')"
    "truthy (supports_transactions plain_test (django_settings world0))"
    by (simp_all add: example_defs supports_transactions_def)
  have r: "?r = (fst ?r, fst (snd ?r), fst (snd (snd ?r)), snd (snd (snd ?r)))"
    by simp
  have tr: "trace (fst (snd ?r))
       = [Transaction_call ''enter_transaction_management'', Managed True,
          Transaction_call ''rollback'', Is_managed,
          Transaction_call ''leave_transaction_management'', Connection_close]"
    by (simp add: run_test_def afterTest_def restore_transaction_support_def test_body_def
        invoke_def example_defs beforeTest_defs)
  from afterTest_restores_bindings [OF h r] h tr show ?thesis by simp
qed

subsection \<open>Flushing when there is no isolation\<close>

text \<open>
  C3. For a test for which \<open>_supports_transactions\<close> answers false, the first thing
  \<open>beforeTest\<close> does to the framework is the \<open>flush\<close> command (zero verbosity, not
  interactive); nothing it does afterwards enters or marks transaction management,
  the six entry points stay bound as they were and no original is saved. The plugin
  has a settings path here: without one \<open>beforeTest\<close> returns before it asks about
  transactions at all, and \<open>begin\<close> does not return without one.
\<close>

theorem beforeTest_flushes_without_isolation:
  assumes "settings_path self = Some sp" and "truthy sp"
    and "\<not> truthy (supports_transactions t (django_settings w))"
    and "beforeTest self w t = (self', w', err)"
  shows "(\<exists>rest. trace w' = trace w @ flush_command # rest
            \<and> (\<forall>e\<in>set rest. \<not> is_transaction_event e))
     \<and> transaction w' = transaction w
     \<and> saved_bindings self' = saved_bindings self"
proof -
  let ?s1 = "self\<lparr>managing_transactions := Some (supports_transactions t (django_settings w))\<rparr>"
  let ?w1 = "emit flush_command w"
  have iso: "beforeTest_isolation self w t = (?s1, ?w1)"
    by (rule isolation_flush [OF assms(3)])
  obtain w2 e2 where fx: "beforeTest_fixtures ?w1 t = (w2, e2)"
    by (cases "beforeTest_fixtures ?w1 t")
  from fixtures_block [OF fx] obtain es where
    w2: "transaction w2 = transaction w" "trace w2 = trace w @ flush_command # es"
      "\<forall>e\<in>set es. \<not> is_transaction_event e"
    by (auto simp: emit_def)
  have s1: "saved_bindings ?s1 = saved_bindings self"
    by (simp add: saved_bindings_def)
  show ?thesis
  proof (cases e2)
    case (Some e)
    with assms(1,2,4) iso fx have "self' = ?s1" "w' = w2" by (simp_all add: beforeTest_def)
    with w2 s1 show ?thesis by simp
  next
    case None
    with assms(1,2,4) iso fx have "beforeTest_urls ?s1 w2 t = (self', w', err)"
      by (simp add: beforeTest_def)
    from urls_block [OF this] obtain us where
      "transaction w' = transaction w2" "saved_bindings self' = saved_bindings ?s1"
      "trace w' = trace w2 @ us" "set us \<subseteq> {Clear_url_caches}"
      by blast
    with w2 s1 have "trace w' = trace w @ flush_command # (es @ us)"
      "\<forall>e\<in>set (es @ us). \<not> is_transaction_event e"
      "transaction w' = transaction w" "saved_bindings self' = saved_bindings self"
      by (auto simp: is_transaction_event_def)
    then show ?thesis by blast
  qed
qed

theorem beforeTest_flushes_without_isolation_witness:
  "settings_path begun = Some (PyStr ''settings'') \<and> truthy (PyStr ''settings'')
   \<and> \<not> truthy (supports_transactions opted_out_test (django_settings world0))
   \<and> trace (fst (snd (beforeTest begun world0 opted_out_test))) = [flush_command]
   \<and> (\<exists>rest. trace (fst (snd (beforeTest begun world0 opted_out_test)))
                = trace world0 @ flush_command # rest
            \<and> (\<forall>e\<in>set rest. \<not> is_transaction_event e))
   \<and> transaction (fst (snd (beforeTest begun world0 opted_out_test))) = transaction world0
   \<and> saved_bindings (fst (beforeTest begun world0 opted_out_test)) = saved_bindings begun"
proof -
  let ?r = "beforeTest begun world0 opted_out_test"
  have h: "settings_path begun = Some (PyStr ''settings'')" "truthy (PyStr ''settings'')"
    "\<not> truthy (supports_transactions opted_out_test (django_settings world0))"
    by (simp_all add: example_defs opted_out_test_def supports_transactions_def)
  have r: "?r = (fst ?r, fst (snd ?r), snd (snd ?r))"
    by simp
  have tr: "trace (fst (snd ?r)) = [flush_command]"
    by (simp add: opted_out_test_def flush_command_def example_defs beforeTest_defs)
  from beforeTest_flushes_without_isolation [OF h r] h tr show ?thesis by simp
qed

subsection \<open>Fixtures\<close>

text \<open>
  C7 as stated fails: the fixtures block is guarded by
  \<open>isinstance(test.test, nose.case.MethodTestCase)\<close>. A \<open>unittest.TestCase\<close> whose
  class declares \<open>fixtures = ["a", "b"]\<close> goes through \<open>beforeTest\<close> without any
  \<open>loaddata\<close>.
\<close>

theorem fixtures_of_unittest_case_not_loaded:
  "test_context unittest_with_fixtures ''fixtures'' = Some (PyList [PyStr ''a'', PyStr ''b''])
   \<and> snd (snd (beforeTest begun world0 unittest_with_fixtures)) = None
   \<and> trace (fst (snd (beforeTest begun world0 unittest_with_fixtures)))
       = [Transaction_call ''enter_transaction_management'', Managed True]"
  by (simp add: unittest_with_fixtures_def plain_test_def begun_def configured_def world0_def
      django_transaction_def beforeTest_def beforeTest_isolation_def beforeTest_fixtures_def
      beforeTest_urls_def supports_transactions_def disable_transaction_support_def
      call_def emit_def hasattr_def Let_def)

lemma fixtures_loaded_in_order:
  assumes "settings_path self = Some sp" and "truthy sp"
    and "is_nose_Test t" and "inner_class t = MethodTestCase"
    and "test_context t ''fixtures'' = Some (PyList names)"
    and "beforeTest self w t = (self', w', err)"
  shows "\<exists>pre post. trace w' = trace w @ pre @ loaddata_command names # post
            \<and> (\<forall>e\<in>set (pre @ post). \<not> is_loaddata e)"
proof -
  obtain s1 w1 where iso: "beforeTest_isolation self w t = (s1, w1)"
    by (cases "beforeTest_isolation self w t")
  from isolation_block [OF iso] obtain pre where
    pre: "trace w1 = trace w @ pre" "\<forall>e\<in>set pre. \<not> is_loaddata e"
    by blast
  let ?w2 = "emit (loaddata_command names) w1"
  have fx: "beforeTest_fixtures w1 t = (?w2, None)"
    by (rule fixtures_loaded [OF assms(3,4,5)])
  with assms(1,2,6) iso have "beforeTest_urls s1 ?w2 t = (self', w', err)"
    by (simp add: beforeTest_def)
  from urls_block [OF this] obtain post where
    post: "trace w' = trace ?w2 @ post" "set post \<subseteq> {Clear_url_caches}"
    by blast
  from pre post have "trace w' = trace w @ pre @ loaddata_command names # post"
    by (simp add: emit_def)
  moreover from pre post have "\<forall>e\<in>set (pre @ post). \<not> is_loaddata e"
    by (auto simp: is_loaddata_def)
  ultimately show ?thesis by blast
qed

text \<open>
  C7, amended. For a test that the runner wraps as a \<open>MethodTestCase\<close> and whose
  context declares a list of fixtures, \<open>beforeTest\<close> issues exactly one \<open>loaddata\<close>
  command, with the fixtures in the declared order and zero verbosity; for a test that
  is not wrapped so, \<open>beforeTest\<close> issues no \<open>loaddata\<close> command at all.
\<close>

theorem beforeTest_loads_fixtures_of_method_tests:
  "(settings_path self = Some sp \<and> truthy sp \<and> is_nose_Test t
      \<and> inner_class t = MethodTestCase
      \<and> test_context t ''fixtures'' = Some (PyList names)
      \<and> beforeTest self w t = (self', w', err)
     \<longrightarrow> (\<exists>pre post. trace w' = trace w @ pre @ loaddata_command names # post
            \<and> (\<forall>e\<in>set (pre @ post). \<not> is_loaddata e)))
   \<and> (\<not> (is_nose_Test t \<and> inner_class t = MethodTestCase)
     \<longrightarrow> (\<exists>es. trace (fst (snd (beforeTest self w t))) = trace w @ es
            \<and> (\<forall>e\<in>set es. \<not> is_loaddata e)))"
proof (intro conjI impI)
  assume "settings_path self = Some sp \<and> truthy sp \<and> is_nose_Test t
      \<and> inner_class t = MethodTestCase
      \<and> test_context t ''fixtures'' = Some (PyList names)
      \<and> beforeTest self w t = (self', w', err)"
  then show "\<exists>pre post. trace w' = trace w @ pre @ loaddata_command names # post
            \<and> (\<forall>e\<in>set (pre @ post). \<not> is_loaddata e)"
    using fixtures_loaded_in_order [of self sp t names w self' w' err] by blast
next
  assume "\<not> (is_nose_Test t \<and> inner_class t = MethodTestCase)"
  from beforeTest_unguarded [OF this, of self w]
  show "\<exists>es. trace (fst (snd (beforeTest self w t))) = trace w @ es
            \<and> (\<forall>e\<in>set es. \<not> is_loaddata e)"
    by blast
qed

theorem beforeTest_loads_fixtures_of_method_tests_witness:
  "settings_path begun = Some (PyStr ''settings'') \<and> truthy (PyStr ''settings'')
   \<and> is_nose_Test method_test_with_fixtures
   \<and> inner_class method_test_with_fixtures = MethodTestCase
   \<and> test_context method_test_with_fixtures ''fixtures'' = Some (PyList [PyStr ''a'', PyStr ''b''])
   \<and> trace (fst (snd (beforeTest begun world0 method_test_with_fixtures)))
       = [Transaction_call ''enter_transaction_management'', Managed True,
          loaddata_command [PyStr ''a'', PyStr ''b'']]
   \<and> (\<exists>pre post. trace (fst (snd (beforeTest begun world0 method_test_with_fixtures)))
          = trace world0 @ pre @ loaddata_command [PyStr ''a'', PyStr ''b''] # post
          \<and> (\<forall>e\<in>set (pre @ post). \<not> is_loaddata e))
   \<and> \<not> (is_nose_Test unittest_with_fixtures
          \<and> inner_class unittest_with_fixtures = MethodTestCase)
   \<and> (\<exists>es. trace (fst (snd (beforeTest begun world0 unittest_with_fixtures)))
          = trace world0 @ es \<and> (\<forall>e\<in>set es. \<not> is_loaddata e))"
proof -
  let ?r = "beforeTest begun world0 method_test_with_fixtures"
  have h: "settings_path begun = Some (PyStr ''settings'')" "truthy (PyStr ''settings'')"
    "is_nose_Test method_test_with_fixtures"
    "inner_class method_test_with_fixtures = MethodTestCase"
    "test_context method_test_with_fixtures ''fixtures'' = Some (PyList [PyStr ''a'', PyStr ''b''])"
    "\<not> (is_nose_Test unittest_with_fixtures
          \<and> inner_class unittest_with_fixtures = MethodTestCase)"
    by (simp_all add: begun_def configured_def method_test_with_fixtures_def
        unittest_with_fixtures_def plain_test_def)
  have r: "?r = (fst ?r, fst (snd ?r), snd (snd ?r))" by simp
  have tr: "trace (fst (snd ?r))
       = [Transaction_call ''enter_transaction_management'', Managed True,
          loaddata_command [PyStr ''a'', PyStr ''b'']]"
    by (simp add: method_test_with_fixtures_def loaddata_command_def example_defs
        beforeTest_defs)
  note a = beforeTest_loads_fixtures_of_method_tests
    [where self = begun and sp = "PyStr ''settings''" and t = method_test_with_fixtures
       and names = "[PyStr ''a'', PyStr ''b'']" and w = world0 and self' = "fst ?r"
       and w' = "fst (snd ?r)" and err = "snd (snd ?r)"]
  note b = beforeTest_loads_fixtures_of_method_tests
    [where self = begun and t = unittest_with_fixtures and w = world0]
  from a h r have A: "\<exists>pre post. trace (fst (snd ?r))
          = trace world0 @ pre @ loaddata_command [PyStr ''a'', PyStr ''b''] # post
          \<and> (\<forall>e\<in>set (pre @ post). \<not> is_loaddata e)"
    by blast
  from b h have B: "\<exists>es. trace (fst (snd (beforeTest begun world0 unittest_with_fixtures)))
          = trace world0 @ es \<and> (\<forall>e\<in>set es. \<not> is_loaddata e)"
    by blast
  from h tr A B show ?thesis by blast
qed

subsection \<open>URL configuration\<close>

lemma module_scope_clear_url_caches: "module_scope ''clear_url_caches'' = None"
  by (simp add: module_scope_def)

text \<open>
  C4 (fails on the code). A test wrapped as a \<open>MethodTestCase\<close> declares \<open>urls\<close>, on
  a plugin that has begun and has saved no root yet. \<open>beforeTest\<close> saves the configured
  root and then reads \<open>self.urls\<close>, an attribute the plugin does not have, instead of
  the test's declaration: it raises \<open>AttributeError\<close>, the URL root is still the
  project's and not the declared override, and no cache has been cleared. At
  \<open>finalize\<close> the saved root is assigned back and the call of \<open>clear_url_caches\<close>
  raises \<open>NameError\<close>: the name is imported in \<open>beforeTest\<close> only. No cache is cleared
  there either.
\<close>

theorem declared_urls_never_installed:
  "hasattr (test_context method_test_with_urls) ''urls''
   \<and> is_nose_Test method_test_with_urls \<and> inner_class method_test_with_urls = MethodTestCase
   \<and> old_urlconf begun = None
   \<and> snd (snd (beforeTest begun world0 method_test_with_urls)) = Some (AttributeError ''urls'')
   \<and> old_urlconf (fst (beforeTest begun world0 method_test_with_urls))
       = Some (PyStr ''project.urls'')
   \<and> django_settings (fst (snd (beforeTest begun world0 method_test_with_urls))) ''ROOT_URLCONF''
       = Some (PyStr ''project.urls'')
   \<and> trace (fst (snd (beforeTest begun world0 method_test_with_urls)))
       = [Transaction_call ''enter_transaction_management'', Managed True]
   \<and> snd (finalize module_scope (fst (beforeTest begun world0 method_test_with_urls)) world0)
       = Some (NameError ''clear_url_caches'')
   \<and> django_settings
         (fst (finalize module_scope (fst (beforeTest begun world0 method_test_with_urls)) world0))
         ''ROOT_URLCONF''
       = Some (PyStr ''project.urls'')
   \<and> trace (fst (finalize module_scope (fst (beforeTest begun world0 method_test_with_urls))
                   world0))
       = [Clear_test_media, Destroy_test_db (PyStr ''project'') 1, Teardown_test_environment]"
  by (simp add: method_test_with_urls_def example_defs beforeTest_defs finalize_def
      custom_after_def module_scope_clear_url_caches)

subsection \<open>The live server\<close>







subsection \<open>Quitting the browser driver\<close>

lemma module_scope_driver_attr: "module_scope ''driver_attr'' = None"
  by (simp add: module_scope_def)

text \<open>
  C10. For a test whose context carries a truthy \<open>selenium\<close> attribute,
  \<open>SeleniumPlugin.afterTest\<close> raises \<open>NameError\<close> for \<open>driver_attr\<close> and the driver
  is not quit (the world is unchanged); for a test without the attribute it does
  nothing.
\<close>

theorem selenium_afterTest_name_error:
  "(truthy (getattr_default (test_context t) ''selenium'' (PyBool False))
      \<longrightarrow> selenium_afterTest module_scope t w = (w, Some (NameError ''driver_attr'')))
   \<and> (test_context t ''selenium'' = None
      \<longrightarrow> selenium_afterTest module_scope t w = (w, None))"
  by (simp add: selenium_afterTest_def module_scope_driver_attr getattr_default_def)

theorem selenium_afterTest_name_error_witness:
  "truthy (getattr_default (test_context selenium_test) ''selenium'' (PyBool False))
   \<and> inner_attrs selenium_test ''driver'' = Some (PyObject ''webdriver'')
   \<and> selenium_afterTest module_scope selenium_test world0
       = (world0, Some (NameError ''driver_attr''))
   \<and> test_context plain_test ''selenium'' = None
   \<and> selenium_afterTest module_scope plain_test world0 = (world0, None)"
proof -
  have h: "truthy (getattr_default (test_context selenium_test) ''selenium'' (PyBool False))"
    "inner_attrs selenium_test ''driver'' = Some (PyObject ''webdriver'')"
    "test_context plain_test ''selenium'' = None"
    by (simp_all add: selenium_test_def plain_test_def getattr_default_def)
  from selenium_afterTest_name_error [of selenium_test world0]
    selenium_afterTest_name_error [of plain_test world0] h
  show ?thesis by simp
qed

subsection \<open>The search daemon\<close>

text \<open>
  C8 (fails on the code). When no configuration template was supplied, \<open>configure\<close>
  leaves the fresh instance without \<open>tmp_sphinx_dir\<close>, and \<open>finalize\<close> raises
  \<open>AttributeError\<close> on reading it. When a template was supplied, \<open>finalize\<close> removes
  the directory that \<open>configure\<close> created, ignoring errors, and raises nothing.
\<close>

theorem sphinx_finalize_without_template_raises:
  "sphinx_configure abspath mkdtemp None sphinx_init w = (sphinx_init, w)
   \<and> sphinx_finalize (fst (sphinx_configure abspath mkdtemp None sphinx_init w)) w'
       = (w', Some (AttributeError ''tmp_sphinx_dir''))
   \<and> sphinx_finalize
        (fst (sphinx_configure abspath mkdtemp (Some ''sphinx.conf.tpl'') sphinx_init w)) w'
       = (emit (Rmtree mkdtemp True) w', None)"
  by (simp add: sphinx_configure_def sphinx_finalize_def sphinx_init_def)




subsection \<open>Locating the settings module\<close>

lemma join_abs_nonempty: "join_abs cs \<noteq> []"
  by (cases cs) (simp_all add: join_abs_def)

lemma join_abs_root: "list_all component cs \<Longrightarrow> join_abs cs = ''/'' \<longleftrightarrow> cs = []"
  by (cases cs) (auto simp: join_abs_def component_def)

lemma join_abs_snoc:
  "join_abs (cs @ [c]) = (if cs = [] then [] else join_abs cs) @ CHR ''/'' # c"
  by (simp add: join_abs_def)

lemma join_abs_last_not_slash:
  assumes "list_all component cs" "cs \<noteq> []"
  shows "join_abs cs \<noteq> [] \<and> last (join_abs cs) \<noteq> CHR ''/''"
  using assms
proof (induction cs rule: rev_induct)
  case Nil
  then show ?case by simp
next
  case (snoc c cs)
  then have "component c" by simp
  then have "c \<noteq> []" "last c \<noteq> CHR ''/''"
    by (metis component_def last_in_set)+
  then show ?case by (simp add: join_abs_snoc)
qed

lemma posix_split_join:
  assumes "list_all component cs" "component c"
  shows "fst (posix_split (join_abs (cs @ [c]))) = join_abs cs"
proof -
  let ?pre = "if cs = [] then [] else join_abs cs"
  have c: "\<forall>x\<in>set c. x \<noteq> CHR ''/''" using assms(2) by (auto simp: component_def)
  have dw: "dropWhile (\<lambda>x. x \<noteq> CHR ''/'') (rev c @ CHR ''/'' # rev ?pre) = CHR ''/'' # rev ?pre"
    using c by (simp add: dropWhile_append3 dropWhile_append2)
  have head: "rev (dropWhile (\<lambda>x. x \<noteq> CHR ''/'') (rev (join_abs (cs @ [c])))) = ?pre @ ''/''"
    unfolding join_abs_snoc using dw by simp
  show ?thesis
  proof (cases "cs = []")
    case True
    then show ?thesis
      unfolding posix_split_def Let_def fst_conv head by (simp add: join_abs_def)
  next
    case False
    with join_abs_last_not_slash [OF assms(1)] have
      ne: "join_abs cs \<noteq> []" and l: "last (join_abs cs) \<noteq> CHR ''/''" by simp_all
    then obtain ys y where ys: "join_abs cs = ys @ [y]" "y \<noteq> CHR ''/''"
      by (metis append_butlast_last_id)
    have "join_abs cs @ ''/'' \<noteq> replicate (length (join_abs cs @ ''/'')) CHR ''/''"
    proof
      assume "join_abs cs @ ''/'' = replicate (length (join_abs cs @ ''/'')) CHR ''/''"
      then have "set (join_abs cs @ ''/'') \<subseteq> {CHR ''/''}"
        by (metis set_replicate_conv_if empty_subsetI subset_refl)
      with ys show False by auto
    qed
    with False ys show ?thesis
      unfolding posix_split_def Let_def fst_conv head by simp
  qed
qed

lemma posix_split_root: "fst (posix_split ''/'') = ''/''"
  by (simp add: posix_split_def)

lemma dirs_upward_snoc:
  "dirs_upward (cs @ [c]) = join_abs (cs @ [c]) # (if cs = [] then [] else dirs_upward cs)"
proof -
  have "map (\<lambda>k. join_abs (take k (cs @ [c]))) (rev [1..<Suc (length cs)])
      = map (\<lambda>k. join_abs (take k cs)) (rev [1..<Suc (length cs)])"
    by (rule map_cong) auto
  then show ?thesis by (simp add: dirs_upward_def)
qed

lemma walk_up_step:
  assumes "cwd \<noteq> []" "listdir os cwd = Some names"
  shows "walk_up os f cwd =
     (if f \<in> set names then Some (Inr (Some cwd))
      else if os_name os = ''nt'' \<and> NT_ROOT_match (fst (path_split os cwd)) then Some (Inr None)
      else if fst (path_split os cwd) = ''/'' then Some (Inr None)
      else walk_up os f (fst (path_split os cwd)))"
  using assms by (subst walk_up.simps) simp

lemma walk_up_visits:
  "visits os ds \<Longrightarrow> walk_up os f (hd ds) = Some (Inr (find (contains_file os f) ds))"
proof (induction ds rule: induct_list012)
  case 1
  then show ?case by simp
next
  case (2 d)
  then obtain names where n: "listdir os d = Some names" by auto
  from 2 have "d \<noteq> []" "stop os (fst (path_split os d))" by simp_all
  with walk_up_step [OF _ n, of f] show ?case
    by (auto simp: stop_def contains_file_def n)
next
  case (3 d d' ds)
  from "3.prems" obtain names where n: "listdir os d = Some names" by auto
  from "3.prems" have d: "d \<noteq> []" "d' = fst (path_split os d)" "\<not> stop os d'"
    "visits os (d' # ds)"
    by auto
  from "3.IH"(2) [OF d(4)]
  have ih: "walk_up os f d' = Some (Inr (find (contains_file os f) (d' # ds)))"
    by simp
  have here: "contains_file os f d \<longleftrightarrow> f \<in> set names"
    by (simp add: contains_file_def n)
  from d(3) have ns: "\<not> (os_name os = ''nt'' \<and> NT_ROOT_match d')" "d' \<noteq> ''/''"
    by (simp_all add: stop_def)
  have "walk_up os f d =
     (if f \<in> set names then Some (Inr (Some d)) else walk_up os f d')"
    using walk_up_step [OF d(1) n, of f] d(2) ns by auto
  with ih here show ?case by simp
qed

lemma hd_dirs_upward: "hd (dirs_upward cs) = join_abs cs"
  by (cases cs rule: rev_cases) (simp_all add: dirs_upward_snoc, simp add: dirs_upward_def join_abs_def)

lemma visits_posix:
  assumes "os_name os \<noteq> ''nt''" and "path_split os = posix_split"
  shows "list_all component cs \<Longrightarrow> \<forall>d\<in>set (dirs_upward cs). listdir os d \<noteq> None \<Longrightarrow>
     visits os (dirs_upward cs)"
proof (induction cs rule: rev_induct)
  case Nil
  then show ?case
    using assms by (simp add: dirs_upward_def stop_def posix_split_root)
next
  case (snoc c cs)
  let ?cwd = "join_abs (cs @ [c])"
  from snoc.prems have comp: "list_all component cs" "component c" by simp_all
  from snoc.prems(2) have l: "listdir os ?cwd \<noteq> None"
    by (simp add: dirs_upward_snoc)
  have parent: "fst (path_split os ?cwd) = join_abs cs"
    using posix_split_join [OF comp] assms(2) by simp
  show ?case
  proof (cases "cs = []")
    case True
    then have "dirs_upward (cs @ [c]) = [?cwd]" "join_abs cs = ''/''"
      using dirs_upward_snoc [of "[]" c] by (simp_all add: join_abs_def)
    with l parent show ?thesis
      by (simp add: join_abs_nonempty stop_def)
  next
    case False
    with comp have "join_abs cs \<noteq> ''/''" by (simp add: join_abs_root)
    with assms(1) have ns: "\<not> stop os (join_abs cs)" by (simp add: stop_def)
    from snoc.prems(2) False have "\<forall>d\<in>set (dirs_upward cs). listdir os d \<noteq> None"
      by (simp add: dirs_upward_snoc)
    from snoc.IH [OF comp(1) this] have v: "visits os (dirs_upward cs)" .
    then obtain d ds where ds: "dirs_upward cs = d # ds" by (cases "dirs_upward cs") auto
    with hd_dirs_upward [of cs] have "d = join_abs cs" by simp
    with False ds v l parent ns show ?thesis
      by (simp add: dirs_upward_snoc join_abs_nonempty)
  qed
qed

lemma nt_split_below_root:
  assumes "\<forall>x\<in>set c. \<not> nt_sep x"
  shows "fst (nt_split (drive # CHR '':'' # CHR 0x5C # c)) = [drive, CHR '':'', CHR 0x5C]"
proof -
  have "dropWhile (\<lambda>x. \<not> nt_sep x) (rev c @ [CHR 0x5C]) = [CHR 0x5C]"
    using assms by (simp add: dropWhile_append3 nt_sep_def)
  then show ?thesis
    by (simp add: nt_split_def nt_splitdrive_def Let_def nt_sep_def)
qed

lemma nt_split_deeper:
  assumes "\<forall>x\<in>set c. \<not> nt_sep x" and "\<not> nt_sep y"
  shows "fst (nt_split (drive # CHR '':'' # (ys @ [y]) @ CHR 0x5C # c))
           = drive # CHR '':'' # ys @ [y]"
proof -
  have "dropWhile (\<lambda>x. \<not> nt_sep x) (rev c @ CHR 0x5C # y # rev ys) = CHR 0x5C # y # rev ys"
    using assms(1) by (simp add: dropWhile_append3 nt_sep_def)
  with assms(2) show ?thesis
    by (simp add: nt_split_def nt_splitdrive_def Let_def nt_sep_def)
qed

lemma nt_tail_snoc:
  "nt_tail (cs @ [c]) = (if cs = [] then [] else nt_tail cs) @ CHR 0x5C # c"
  by (simp add: nt_tail_def)

lemma nt_tail_last:
  assumes "list_all nt_component cs" "cs \<noteq> []"
  shows "nt_tail cs \<noteq> [] \<and> \<not> nt_sep (last (nt_tail cs))"
  using assms
proof (induction cs rule: rev_induct)
  case Nil
  then show ?case by simp
next
  case (snoc c cs)
  then have "nt_component c" by simp
  then have "c \<noteq> []" "\<not> nt_sep (last c)"
    by (metis nt_component_def last_in_set)+
  then show ?case by (simp add: nt_tail_snoc)
qed

lemma nt_split_join:
  assumes "list_all nt_component cs" "nt_component c"
  shows "fst (nt_split (nt_join drive (cs @ [c]))) = nt_join drive cs"
proof -
  have c: "\<forall>x\<in>set c. \<not> nt_sep x" using assms(2) by (auto simp: nt_component_def)
  show ?thesis
  proof (cases "cs = []")
    case True
    with nt_split_below_root [OF c, of drive] show ?thesis
      by (simp add: nt_join_def nt_tail_def)
  next
    case False
    with nt_tail_last [OF assms(1)] obtain ys y where
      ys: "nt_tail cs = ys @ [y]" "\<not> nt_sep y"
      by (metis append_butlast_last_id)
    from nt_split_deeper [OF c ys(2), of drive ys] False ys(1) show ?thesis
      by (simp add: nt_join_def nt_tail_snoc)
  qed
qed

lemma nt_join_nonempty: "nt_join drive cs \<noteq> []"
  by (simp add: nt_join_def)

lemma nt_root_is_root: "is_ascii_letter drive \<Longrightarrow> NT_ROOT_match (nt_join drive [])"
  by (simp add: nt_join_def nt_tail_def)

lemma nt_below_root_no_root:
  assumes "list_all nt_component cs" "cs \<noteq> []"
  shows "\<not> NT_ROOT_match (nt_join drive cs) \<and> nt_join drive cs \<noteq> ''/''"
proof -
  from assms obtain c cs' where cs: "cs = c # cs'" by (cases cs) auto
  with assms(1) obtain x xs where c: "c = x # xs" "x \<noteq> CHR 0x0A"
    by (cases c) (auto simp: nt_component_def)
  have "nt_join drive cs
      = drive # CHR '':'' # CHR 0x5C # x # (xs @ concat (map (\<lambda>c. CHR 0x5C # c) cs'))"
    by (simp add: nt_join_def nt_tail_def cs c)
  then obtain rest where "nt_join drive cs = drive # CHR '':'' # CHR 0x5C # x # rest"
    by blast
  with c(2) show ?thesis by (cases rest) simp_all
qed

lemma nt_dirs_upward_snoc:
  "nt_dirs_upward drive (cs @ [c])
     = nt_join drive (cs @ [c]) # (if cs = [] then [] else nt_dirs_upward drive cs)"
proof -
  have "map (\<lambda>k. nt_join drive (take k (cs @ [c]))) (rev [1..<Suc (length cs)])
      = map (\<lambda>k. nt_join drive (take k cs)) (rev [1..<Suc (length cs)])"
    by (rule map_cong) auto
  then show ?thesis by (simp add: nt_dirs_upward_def)
qed

lemma hd_nt_dirs_upward: "hd (nt_dirs_upward drive cs) = nt_join drive cs"
  by (cases cs rule: rev_cases) (simp_all add: nt_dirs_upward_snoc, simp add: nt_dirs_upward_def)

lemma visits_nt:
  assumes "os_name os = ''nt''" and "path_split os = nt_split" and "is_ascii_letter drive"
  shows "list_all nt_component cs \<Longrightarrow>
     \<forall>d\<in>set (nt_dirs_upward drive cs). listdir os d \<noteq> None \<Longrightarrow>
     visits os (nt_dirs_upward drive cs)"
proof (induction cs rule: rev_induct)
  case Nil
  have "fst (nt_split (nt_join drive [])) = nt_join drive []"
    using nt_split_below_root [of "[]" drive] by (simp add: nt_join_def nt_tail_def)
  with Nil assms show ?case
    by (simp add: nt_dirs_upward_def stop_def nt_join_nonempty nt_root_is_root)
next
  case (snoc c cs)
  let ?cwd = "nt_join drive (cs @ [c])"
  from snoc.prems have comp: "list_all nt_component cs" "nt_component c" by simp_all
  from snoc.prems(2) have l: "listdir os ?cwd \<noteq> None"
    by (simp add: nt_dirs_upward_snoc)
  have parent: "fst (path_split os ?cwd) = nt_join drive cs"
    using nt_split_join [OF comp] assms(2) by simp
  show ?case
  proof (cases "cs = []")
    case True
    then have "nt_dirs_upward drive (cs @ [c]) = [?cwd]"
      using nt_dirs_upward_snoc [of drive "[]" c] by simp
    moreover from True assms(1,3) have "stop os (nt_join drive cs)"
      by (simp add: stop_def nt_root_is_root)
    ultimately show ?thesis using l parent
      by (simp add: nt_join_nonempty)
  next
    case False
    with comp assms(1) have ns: "\<not> stop os (nt_join drive cs)"
      using nt_below_root_no_root [of cs drive] by (simp add: stop_def)
    from snoc.prems(2) False have "\<forall>d\<in>set (nt_dirs_upward drive cs). listdir os d \<noteq> None"
      by (simp add: nt_dirs_upward_snoc)
    from snoc.IH [OF comp(1) this] have v: "visits os (nt_dirs_upward drive cs)" .
    then obtain d ds where ds: "nt_dirs_upward drive cs = d # ds"
      by (cases "nt_dirs_upward drive cs") auto
    with hd_nt_dirs_upward [of drive cs] have "d = nt_join drive cs" by simp
    with False ds v l parent ns show ?thesis
      by (simp add: nt_dirs_upward_snoc nt_join_nonempty)
  qed
qed

lemma nose_add_path_plain:
  assumes "dir \<noteq> []" "\<not> is_package ls dir" "dir \<notin> set path"
  shows "nose_add_path ls split dir path = dir # path"
  using assms by (subst nose_add_path.simps) simp

lemma nose_add_path_package:
  assumes "is_package ls dir" "fst (split dir) \<noteq> []" "length (fst (split dir)) < length dir"
  shows "nose_add_path ls split dir path = nose_add_path ls split (fst (split dir)) path"
  using assms by (subst nose_add_path.simps) auto

lemma get_settings_path_visits:
  assumes "visits os ds" "hd ds = getcwd os"
  shows "get_settings_path os name
     = Some (Inr (find (contains_file os (settings_filename name)) ds))"
  using walk_up_visits [OF assms(1)] assms(2) by (simp add: get_settings_path_def)

lemma find_nonempty:
  "visits os ds \<Longrightarrow> find P ds = Some dir \<Longrightarrow> dir \<noteq> []"
proof (induction ds rule: induct_list012)
  case 1
  then show ?case by simp
next
  case (2 d)
  then show ?case by (auto split: if_splits)
next
  case (3 d d' ds)
  then show ?case by (auto split: if_splits)
qed

lemma begin_setup_keeps:
  "settings_path (fst (fst (begin_setup os self w))) = settings_path self
   \<and> sys_path (snd (fst (begin_setup os self w))) = sys_path w"
  by (simp add: begin_setup_def Let_def emit_def custom_before_def
      split: option.splits sum.splits prod.splits)

lemma begin_paths_trace: "trace (begin_paths os self w) = trace w"
  by (simp add: begin_paths_def Let_def)

lemma begin_found:
  assumes "try_import os (settings_module self) = Some ImportError"
    and "get_settings_path os (settings_module self) = Some (Inr (Some dir))" and "dir \<noteq> []"
  shows "\<exists>self' w' err. plugin_begin os self w = Some ((self', w'), err)
     \<and> settings_path self' = Some (PyStr dir)
     \<and> sys_path w' = add_path os dir (sys_path (begin_paths os self w)) @ [dir]"
proof -
  let ?s = "self\<lparr>settings_path := Some (PyStr dir)\<rparr>"
  let ?w = "(begin_paths os self w)
              \<lparr>sys_path := add_path os dir (sys_path (begin_paths os self w)) @ [dir]\<rparr>"
  have "plugin_begin os self w = Some (begin_setup os ?s ?w)"
    using assms by (simp add: plugin_begin_def begin_locate_def)
  moreover obtain s' w' err where r: "begin_setup os ?s ?w = ((s', w'), err)"
    by (metis prod.collapse)
  moreover from begin_setup_keeps [of os ?s ?w] r
  have "settings_path s' = Some (PyStr dir)"
    "sys_path w' = add_path os dir (sys_path (begin_paths os self w)) @ [dir]"
    by simp_all
  ultimately show ?thesis by auto
qed

lemma begin_not_found:
  assumes "try_import os (settings_module self) = Some ImportError"
    and "get_settings_path os (settings_module self) = Some (Inr None)"
  shows "plugin_begin os self w =
     Some ((self\<lparr>settings_path := Some PyNone\<rparr>, begin_paths os self w),
           Some settings_not_found)"
  using assms by (simp add: plugin_begin_def begin_locate_def settings_not_found_def)

lemma begin_found_exact:
  assumes "try_import os (settings_module self) = Some ImportError"
    and "get_settings_path os (settings_module self) = Some (Inr (Some dir))" and "dir \<noteq> []"
  shows "plugin_begin os self w =
     Some (begin_setup os (self\<lparr>settings_path := Some (PyStr dir)\<rparr>)
             ((begin_paths os self w)
                \<lparr>sys_path := add_path os dir (sys_path (begin_paths os self w)) @ [dir]\<rparr>))"
  using assms by (simp add: plugin_begin_def begin_locate_def)

lemma path_after_found:
  assumes "try_import os (settings_module self) = Some ImportError"
    and "get_settings_path os (settings_module self) = Some (Inr (Some dir))" and "dir \<noteq> []"
  shows "path_after (plugin_begin os self w)
     = Some (add_path os dir (sys_path (begin_paths os self w)) @ [dir])"
  using begin_found_exact [OF assms, of w] begin_setup_keeps
  by (simp add: path_after_def)

text \<open>
  A \<open>begin\<close> that returns leaves a truthy \<open>settings_path\<close> behind: the guard at the
  head of \<open>beforeTest\<close> and \<open>finalize\<close> does not fire in a run that got as far as
  its first test.
\<close>

lemma begin_locate_settings_path:
  assumes "begin_locate os self w = Some ((self', w'), None)" "settings_module self \<noteq> []"
  shows "\<exists>sp. settings_path self' = Some sp \<and> truthy sp"
  using assms
  by (auto simp: begin_locate_def split: option.splits sum.splits if_splits)

lemma begin_settings_path:
  assumes "plugin_begin os self w = Some ((self', w'), None)" "settings_module self \<noteq> []"
  shows "\<exists>sp. settings_path self' = Some sp \<and> truthy sp"
proof -
  from assms(1) obtain s1 w1 where
    l: "begin_locate os self (begin_paths os self w) = Some ((s1, w1), None)"
    and s: "begin_setup os s1 w1 = ((self', w'), None)"
    by (auto simp: plugin_begin_def split: option.splits prod.splits)
  from begin_locate_settings_path [OF l assms(2)] obtain sp where
    "settings_path s1 = Some sp" "truthy sp" by blast
  moreover from begin_setup_keeps [of os s1 w1] s have "settings_path self' = settings_path s1"
    by simp
  ultimately show ?thesis by simp
qed

text \<open>
  C6 as stated fails in one point: the directory found is not always prepended to the
  import search path. \<open>begin\<close> hands it to \<open>add_path\<close> and then appends it. When the
  directory is a package, as a project directory with \<open>__init__.py\<close> beside
  \<open>settings.py\<close> is, \<open>add_path\<close> puts the parent of the package first, and the
  directory itself is on the path only as its last entry.
\<close>

theorem package_directory_not_prepended:
  "get_settings_path posix_package (settings_module project_plugin)
     = Some (Inr (Some ''/home/me/project''))
   \<and> sys_path (begin_paths posix_package project_plugin world0) = [''/usr/lib/python2.6'']
   \<and> path_after (plugin_begin posix_package project_plugin world0)
     = Some [''/home/me'', ''/usr/lib/python2.6'', ''/home/me/project'']"
proof -
  have dirs: "dirs_upward app_dir
      = [''/home/me/project/app'', ''/home/me/project'', ''/home/me'', ''/home'']"
    by (simp add: dirs_upward_def app_dir_def join_abs_def upt_rec)
  have v: "visits posix_package (dirs_upward app_dir)"
  proof (rule visits_posix)
    show "os_name posix_package \<noteq> ''nt''" "path_split posix_package = posix_split"
      by (simp_all add: posix_package_def)
    show "list_all component app_dir" by (simp add: app_dir_def component_def)
    show "\<forall>d\<in>set (dirs_upward app_dir). listdir posix_package d \<noteq> None"
      by (simp add: dirs posix_package_def package_tree_def)
  qed
  have h: "hd (dirs_upward app_dir) = getcwd posix_package"
    by (simp add: dirs posix_package_def)
  have f: "find (contains_file posix_package (settings_filename (settings_module project_plugin)))
      (dirs_upward app_dir) = Some ''/home/me/project''"
    by (simp add: dirs contains_file_def posix_package_def package_tree_def
        settings_filename_def project_plugin_def)
  from get_settings_path_visits [OF v h, of "settings_module project_plugin"] f
  have g: "get_settings_path posix_package (settings_module project_plugin)
     = Some (Inr (Some ''/home/me/project''))" by simp
  have i: "try_import posix_package (settings_module project_plugin) = Some ImportError"
    by (simp add: posix_package_def)
  have p: "sys_path (begin_paths posix_package project_plugin world0) = [''/usr/lib/python2.6'']"
    by (simp add: begin_paths_def project_plugin_def configured_def world0_def)
  have split: "fst (posix_split ''/home/me/project'') = ''/home/me''"
    "fst (posix_split ''/home/me'') = ''/home''"
    by (simp_all add: posix_split_def)
  have a: "add_path posix_package ''/home/me/project'' [''/usr/lib/python2.6'']
      = [''/home/me'', ''/usr/lib/python2.6'']"
    by (simp add: posix_package_def nose_add_path.simps split is_package_def package_tree_def)
  from path_after_found [OF i g, of world0] p a g show ?thesis by simp
qed

text \<open>
  C6, amended. When the import of the settings module fails with \<open>ImportError\<close>,
  \<open>get_settings_path\<close> terminates on every walk that ends before a root, and returns
  the first directory of the walk whose listing has the file named after the last dotted
  component of the module, or \<open>None\<close>. On POSIX, from a working directory given by
  its components, and on Windows, from one on a lettered drive, the walk is the list of
  directories from the working directory upward, short of the root or drive root. If
  a directory is found, \<open>begin\<close> records it, hands it to \<open>add_path\<close> and appends it
  to \<open>sys.path\<close>: it is last on the path, and \<open>add_path\<close> puts it first as well when
  it is no package and not yet on the path, and puts the parent of a package in its
  place. If none is found, \<open>begin\<close> raises the error
  \<open>Can't find Django settings file!\<close> with no framework call made.
\<close>

theorem begin_locates_settings_or_aborts:
  "(try_import os (settings_module self) = Some ImportError
      \<and> visits os ds \<and> hd ds = getcwd os
    \<longrightarrow> get_settings_path os (settings_module self)
          = Some (Inr (find (contains_file os (settings_filename (settings_module self))) ds))
      \<and> (\<forall>dir. find (contains_file os (settings_filename (settings_module self))) ds = Some dir
            \<longrightarrow> (\<exists>self' w' err. plugin_begin os self w = Some ((self', w'), err)
                   \<and> settings_path self' = Some (PyStr dir)
                   \<and> sys_path w' = add_path os dir (sys_path (begin_paths os self w)) @ [dir]))
      \<and> (find (contains_file os (settings_filename (settings_module self))) ds = None
            \<longrightarrow> plugin_begin os self w
                  = Some ((self\<lparr>settings_path := Some PyNone\<rparr>, begin_paths os self w),
                          Some settings_not_found)
                \<and> trace (begin_paths os self w) = trace w))
   \<and> (os_name os \<noteq> ''nt'' \<and> path_split os = posix_split \<and> list_all component cs
      \<and> (\<forall>d\<in>set (dirs_upward cs). listdir os d \<noteq> None)
    \<longrightarrow> visits os (dirs_upward cs) \<and> hd (dirs_upward cs) = join_abs cs)
   \<and> (os_name os = ''nt'' \<and> path_split os = nt_split \<and> is_ascii_letter drive
      \<and> list_all nt_component cs
      \<and> (\<forall>d\<in>set (nt_dirs_upward drive cs). listdir os d \<noteq> None)
    \<longrightarrow> visits os (nt_dirs_upward drive cs)
      \<and> hd (nt_dirs_upward drive cs) = nt_join drive cs)
   \<and> (found \<noteq> [] \<and> \<not> is_package ls found \<and> found \<notin> set path
    \<longrightarrow> nose_add_path ls split found path @ [found] = found # path @ [found])
   \<and> (is_package ls found \<and> fst (split found) \<noteq> []
      \<and> length (fst (split found)) < length found
    \<longrightarrow> nose_add_path ls split found path = nose_add_path ls split (fst (split found)) path)"
proof (intro conjI impI)
  let ?f = "settings_filename (settings_module self)"
  assume a: "try_import os (settings_module self) = Some ImportError
      \<and> visits os ds \<and> hd ds = getcwd os"
  then have g: "get_settings_path os (settings_module self)
          = Some (Inr (find (contains_file os ?f) ds))"
    using get_settings_path_visits by blast
  then show "get_settings_path os (settings_module self)
          = Some (Inr (find (contains_file os ?f) ds))" .
  show "\<forall>dir. find (contains_file os ?f) ds = Some dir
            \<longrightarrow> (\<exists>self' w' err. plugin_begin os self w = Some ((self', w'), err)
                   \<and> settings_path self' = Some (PyStr dir)
                   \<and> sys_path w' = add_path os dir (sys_path (begin_paths os self w)) @ [dir])"
  proof (intro allI impI)
    fix dir assume f: "find (contains_file os ?f) ds = Some dir"
    with a have "dir \<noteq> []" using find_nonempty by blast
    with a g f show "\<exists>self' w' err. plugin_begin os self w = Some ((self', w'), err)
                   \<and> settings_path self' = Some (PyStr dir)
                   \<and> sys_path w' = add_path os dir (sys_path (begin_paths os self w)) @ [dir]"
      using begin_found [of os self dir w] by simp
  qed
  show "plugin_begin os self w
          = Some ((self\<lparr>settings_path := Some PyNone\<rparr>, begin_paths os self w),
                  Some settings_not_found)"
    if "find (contains_file os ?f) ds = None"
    using that a g begin_not_found [of os self w] by simp
  show "trace (begin_paths os self w) = trace w"
    by (rule begin_paths_trace)
next
  assume "os_name os \<noteq> ''nt'' \<and> path_split os = posix_split \<and> list_all component cs
      \<and> (\<forall>d\<in>set (dirs_upward cs). listdir os d \<noteq> None)"
  then show "visits os (dirs_upward cs)" using visits_posix by blast
  show "hd (dirs_upward cs) = join_abs cs" by (rule hd_dirs_upward)
next
  assume "os_name os = ''nt'' \<and> path_split os = nt_split \<and> is_ascii_letter drive
      \<and> list_all nt_component cs
      \<and> (\<forall>d\<in>set (nt_dirs_upward drive cs). listdir os d \<noteq> None)"
  then show "visits os (nt_dirs_upward drive cs)" using visits_nt by blast
  show "hd (nt_dirs_upward drive cs) = nt_join drive cs" by (rule hd_nt_dirs_upward)
next
  assume "found \<noteq> [] \<and> \<not> is_package ls found \<and> found \<notin> set path"
  then show "nose_add_path ls split found path @ [found] = found # path @ [found]"
    using nose_add_path_plain [of found ls path split] by simp
next
  assume "is_package ls found \<and> fst (split found) \<noteq> []
      \<and> length (fst (split found)) < length found"
  then show "nose_add_path ls split found path = nose_add_path ls split (fst (split found)) path"
    using nose_add_path_package [of ls found split path] by simp
qed

theorem begin_locates_settings_or_aborts_witness:
  "try_import posix_plain (settings_module project_plugin) = Some ImportError
   \<and> os_name posix_plain \<noteq> ''nt'' \<and> path_split posix_plain = posix_split
   \<and> list_all component app_dir
   \<and> list_all (\<lambda>d. listdir posix_plain d \<noteq> None) (dirs_upward app_dir)
   \<and> visits posix_plain (dirs_upward app_dir)
   \<and> hd (dirs_upward app_dir) = getcwd posix_plain
   \<and> get_settings_path posix_plain (settings_module project_plugin)
       = Some (Inr (Some ''/home/me/project''))
   \<and> ''/home/me/project'' \<noteq> [] \<and> \<not> is_package project_tree ''/home/me/project''
   \<and> ''/home/me/project'' \<notin> set lib_path
   \<and> (\<exists>self' w' err. plugin_begin posix_plain project_plugin world0 = Some ((self', w'), err)
          \<and> settings_path self' = Some (PyStr ''/home/me/project'')
          \<and> sys_path w' = [''/home/me/project'', ''/usr/lib/python2.6'', ''/home/me/project''])
   \<and> get_settings_path posix_plain (settings_module conf_plugin) = Some (Inr None)
   \<and> plugin_begin posix_plain conf_plugin world0
       = Some ((conf_plugin\<lparr>settings_path := Some PyNone\<rparr>,
                begin_paths posix_plain conf_plugin world0), Some settings_not_found)
   \<and> trace (begin_paths posix_plain conf_plugin world0) = []
   \<and> try_import nt_project (settings_module configured) = Some ImportError
   \<and> os_name nt_project = ''nt'' \<and> path_split nt_project = nt_split
   \<and> is_ascii_letter CHR ''C'' \<and> list_all nt_component nt_app_dir
   \<and> list_all (\<lambda>d. listdir nt_project d \<noteq> None) (nt_dirs_upward CHR ''C'' nt_app_dir)
   \<and> visits nt_project (nt_dirs_upward CHR ''C'' nt_app_dir)
   \<and> hd (nt_dirs_upward CHR ''C'' nt_app_dir) = getcwd nt_project
   \<and> get_settings_path nt_project (settings_module configured)
       = Some (Inr (Some (nt_join CHR ''C'' [''proj''])))
   \<and> (\<exists>self' w' err. plugin_begin nt_project configured world0 = Some ((self', w'), err)
          \<and> settings_path self' = Some (PyStr (nt_join CHR ''C'' [''proj'']))
          \<and> sys_path w' = [nt_join CHR ''C'' [''proj''], ''/usr/lib/python2.6'',
                            nt_join CHR ''C'' [''proj'']])
   \<and> get_settings_path nt_project (settings_module conf_plugin) = Some (Inr None)
   \<and> plugin_begin nt_project conf_plugin world0
       = Some ((conf_plugin\<lparr>settings_path := Some PyNone\<rparr>,
                begin_paths nt_project conf_plugin world0), Some settings_not_found)
   \<and> is_package package_tree ''/home/me/project''
   \<and> fst (posix_split ''/home/me/project'') = ''/home/me''
   \<and> nose_add_path package_tree posix_split ''/home/me/project'' lib_path
       = nose_add_path package_tree posix_split ''/home/me'' lib_path"
proof -
  let ?pd = "dirs_upward app_dir"
  let ?nd = "nt_dirs_upward CHR ''C'' nt_app_dir"
  have dirs: "?pd = [''/home/me/project/app'', ''/home/me/project'', ''/home/me'', ''/home'']"
    by (simp add: dirs_upward_def app_dir_def join_abs_def upt_rec)
  have ndirs: "?nd = [nt_join CHR ''C'' [''proj'', ''app''], nt_join CHR ''C'' [''proj'']]"
    by (simp add: nt_dirs_upward_def nt_app_dir_def upt_rec)
  have names: "settings_filename (settings_module project_plugin) = ''settings.py''"
    "settings_filename (settings_module conf_plugin) = ''conf.py''"
    "settings_filename (settings_module configured) = ''settings.py''"
    by (simp_all add: settings_filename_def project_plugin_def conf_plugin_def configured_def)
  have posix: "try_import posix_plain (settings_module project_plugin) = Some ImportError"
    "try_import posix_plain (settings_module conf_plugin) = Some ImportError"
    "os_name posix_plain \<noteq> ''nt''" "path_split posix_plain = posix_split"
    "list_all component app_dir" "join_abs app_dir = getcwd posix_plain"
    by (simp_all add: posix_plain_def app_dir_def join_abs_def component_def)
  have plisted: "\<forall>d\<in>set ?pd. listdir posix_plain d \<noteq> None"
    by (simp add: dirs posix_plain_def project_tree_def)
  have pfound: "find (contains_file posix_plain ''settings.py'') ?pd = Some ''/home/me/project''"
    "find (contains_file posix_plain ''conf.py'') ?pd = None"
    by (simp_all add: dirs contains_file_def posix_plain_def project_tree_def)
  have nt: "try_import nt_project (settings_module configured) = Some ImportError"
    "try_import nt_project (settings_module conf_plugin) = Some ImportError"
    "os_name nt_project = ''nt''" "path_split nt_project = nt_split"
    "is_ascii_letter CHR ''C''" "list_all nt_component nt_app_dir"
    "nt_join CHR ''C'' nt_app_dir = getcwd nt_project"
    by (simp_all add: nt_project_def nt_app_dir_def nt_component_def nt_sep_def
        is_ascii_letter_def)
  have nlisted: "\<forall>d\<in>set ?nd. listdir nt_project d \<noteq> None"
    by (simp add: ndirs nt_project_def nt_tree_def)
  have nfound: "find (contains_file nt_project ''settings.py'') ?nd
      = Some (nt_join CHR ''C'' [''proj''])"
    "find (contains_file nt_project ''conf.py'') ?nd = None"
    by (simp_all add: ndirs contains_file_def nt_project_def nt_tree_def nt_join_def nt_tail_def)
  have paths: "sys_path (begin_paths posix_plain project_plugin world0) = lib_path"
    "sys_path (begin_paths nt_project configured world0) = lib_path"
    "trace (begin_paths posix_plain conf_plugin world0) = []"
    "add_path posix_plain = nose_add_path project_tree posix_split"
    "add_path nt_project = nose_add_path nt_tree nt_split"
    by (simp_all add: begin_paths_def project_plugin_def conf_plugin_def configured_def
        world0_def posix_plain_def nt_project_def lib_path_def)
  have plain: "\<not> is_package project_tree ''/home/me/project''"
    "''/home/me/project'' \<notin> set lib_path"
    "\<not> is_package nt_tree (nt_join CHR ''C'' [''proj''])"
    "nt_join CHR ''C'' [''proj''] \<notin> set lib_path" "nt_join CHR ''C'' [''proj''] \<noteq> []"
    by (simp_all add: is_package_def project_tree_def nt_tree_def lib_path_def nt_join_def
        nt_tail_def)
  have pkg: "is_package package_tree ''/home/me/project''"
    "fst (posix_split ''/home/me/project'') = ''/home/me''"
    by (simp_all add: is_package_def package_tree_def posix_split_def)
  note I1 = begin_locates_settings_or_aborts
    [where os = posix_plain and self = project_plugin and ds = ?pd and cs = app_dir
       and w = world0 and found = "''/home/me/project''" and ls = project_tree
       and split = posix_split and path = lib_path]
  note I2 = begin_locates_settings_or_aborts
    [where os = posix_plain and self = conf_plugin and ds = ?pd and cs = app_dir
       and w = world0]
  note I3 = begin_locates_settings_or_aborts
    [where os = nt_project and self = configured and ds = ?nd and cs = nt_app_dir
       and drive = "CHR ''C''" and w = world0 and found = "nt_join CHR ''C'' [''proj'']"
       and ls = nt_tree and split = nt_split and path = lib_path]
  note I4 = begin_locates_settings_or_aborts
    [where os = nt_project and self = conf_plugin and ds = ?nd and cs = nt_app_dir
       and drive = "CHR ''C''" and w = world0]
  note I5 = begin_locates_settings_or_aborts
    [where found = "''/home/me/project''" and ls = package_tree and split = posix_split
       and path = lib_path]
  from I1 posix plisted have pv: "visits posix_plain ?pd" "hd ?pd = getcwd posix_plain"
    by simp_all
  from I3 nt nlisted have nv: "visits nt_project ?nd" "hd ?nd = getcwd nt_project"
    by simp_all
  from I1 plain have padd:
    "nose_add_path project_tree posix_split ''/home/me/project'' lib_path @ [''/home/me/project'']
       = ''/home/me/project'' # lib_path @ [''/home/me/project'']"
    by simp
  from I3 plain have nadd:
    "nose_add_path nt_tree nt_split (nt_join CHR ''C'' [''proj'']) lib_path
         @ [nt_join CHR ''C'' [''proj'']]
       = nt_join CHR ''C'' [''proj''] # lib_path @ [nt_join CHR ''C'' [''proj'']]"
    by simp
  from I1 posix(1) pv pfound(1) names(1) paths(1,4) padd
  have A: "get_settings_path posix_plain (settings_module project_plugin)
       = Some (Inr (Some ''/home/me/project''))"
    "\<exists>self' w' err. plugin_begin posix_plain project_plugin world0 = Some ((self', w'), err)
          \<and> settings_path self' = Some (PyStr ''/home/me/project'')
          \<and> sys_path w' = [''/home/me/project'', ''/usr/lib/python2.6'', ''/home/me/project'']"
    by (simp_all add: lib_path_def)
  from I2 posix(2) pv pfound(2) names(2)
  have B: "get_settings_path posix_plain (settings_module conf_plugin) = Some (Inr None)"
    "plugin_begin posix_plain conf_plugin world0
       = Some ((conf_plugin\<lparr>settings_path := Some PyNone\<rparr>,
                begin_paths posix_plain conf_plugin world0), Some settings_not_found)"
    by simp_all
  from I3 nt(1) nv nfound(1) names(3) paths(2,5) nadd
  have C: "get_settings_path nt_project (settings_module configured)
       = Some (Inr (Some (nt_join CHR ''C'' [''proj''])))"
    "\<exists>self' w' err. plugin_begin nt_project configured world0 = Some ((self', w'), err)
          \<and> settings_path self' = Some (PyStr (nt_join CHR ''C'' [''proj'']))
          \<and> sys_path w' = [nt_join CHR ''C'' [''proj''], ''/usr/lib/python2.6'',
                            nt_join CHR ''C'' [''proj'']]"
    by (simp_all add: lib_path_def)
  from I4 nt(2) nv nfound(2) names(2)
  have D: "get_settings_path nt_project (settings_module conf_plugin) = Some (Inr None)"
    "plugin_begin nt_project conf_plugin world0
       = Some ((conf_plugin\<lparr>settings_path := Some PyNone\<rparr>,
                begin_paths nt_project conf_plugin world0), Some settings_not_found)"
    by simp_all
  from I5 pkg have E:
    "nose_add_path package_tree posix_split ''/home/me/project'' lib_path
       = nose_add_path package_tree posix_split ''/home/me'' lib_path"
    by simp
  from plisted nlisted have listed:
    "list_all (\<lambda>d. listdir posix_plain d \<noteq> None) ?pd"
    "list_all (\<lambda>d. listdir nt_project d \<noteq> None) ?nd"
    by (simp_all add: list_all_iff)
  from posix(1,3,4,5) listed pv A plain(1,2) B paths(3) nt(1,3,4,5,6) nv C D pkg E
  show ?thesis by simp
qed

end
